theory Spec2Isabelle
  imports Main "HOL-Library.Sublist" "HOL-Library.Word"
begin

section \<open>Go values used by package csi\<close>

subsection \<open>Errors\<close>

text \<open>
  A Go \<open>error\<close> is an interface value; \<open>nil\<close> is \<open>None\<close> of \<open>error option\<close>.
  The constructors are the dynamic types util.go meets: \<open>errors.New\<close>/\<open>fmt.Errorf\<close>
  values known by their text, \<open>syscall.Errno\<close>, \<open>*os.PathError\<close>, the sentinels
  \<open>os.ErrNotExist\<close> and \<open>io.EOF\<close>, and the result of \<open>errors.Wrap\<close> of github.com/pkg/errors
  (cause and message).
\<close>

datatype errno = ENOENT | EIO | EACCES | ESTALE | ENOTCONN | EHOSTDOWN
  | EROFS | EBUSY | EINVAL | ENOTDIR | EEXIST

datatype error =
    ErrorString string
  | Errno errno
  | PathError string string error
  | ErrNotExist
  | EOF
  | WithMessage error string

fun errno_text :: "errno \<Rightarrow> string" where
  "errno_text ENOENT = ''no such file or directory''"
| "errno_text EIO = ''input/output error''"
| "errno_text EACCES = ''permission denied''"
| "errno_text ESTALE = ''stale NFS file handle''"
| "errno_text ENOTCONN = ''transport endpoint is not connected''"
| "errno_text EHOSTDOWN = ''host is down''"
| "errno_text EROFS = ''read-only file system''"
| "errno_text EBUSY = ''device or resource busy''"
| "errno_text EINVAL = ''invalid argument''"
| "errno_text ENOTDIR = ''not a directory''"
| "errno_text EEXIST = ''file exists''"

text \<open>The method \<open>err.Error()\<close>.\<close>

primrec Error :: "error \<Rightarrow> string" where
  "Error (ErrorString s) = s"
| "Error (Errno e) = errno_text e"
| "Error (PathError op path err) = op @ '' '' @ path @ '': '' @ Error err"
| "Error ErrNotExist = ''file does not exist''"
| "Error EOF = ''EOF''"
| "Error (WithMessage cause msg) = msg @ '': '' @ Error cause"

text \<open>The verb \<open>%v\<close> of package fmt applied to an error value: a nil error prints \<open><nil>\<close>.\<close>

definition fmt_v :: "error option \<Rightarrow> string" where
  "fmt_v err = (case err of None \<Rightarrow> ''<nil>'' | Some e \<Rightarrow> Error e)"

text \<open>
  \<open>errors.Wrap(err, message)\<close> of github.com/pkg/errors annotates \<open>err\<close> with the message;
  when \<open>err\<close> is nil it returns nil.
\<close>

definition errors_Wrap :: "error option \<Rightarrow> string \<Rightarrow> error option" where
  "errors_Wrap err message = (case err of None \<Rightarrow> None | Some e \<Rightarrow> Some (WithMessage e message))"

text \<open>
  \<open>os.IsNotExist\<close> looks through one \<open>*os.PathError\<close> and accepts \<open>os.ErrNotExist\<close>
  and the errno \<open>ENOENT\<close>. \<open>mount.IsCorruptedMnt\<close> of k8s.io/mount-utils looks through a
  \<open>*os.PathError\<close> (or takes a bare errno) and accepts the errnos of an unreachable mount.
\<close>

fun underlyingError :: "error \<Rightarrow> error" where
  "underlyingError (PathError op path err) = err"
| "underlyingError e = e"

definition os_IsNotExist :: "error option \<Rightarrow> bool" where
  "os_IsNotExist err =
     (case err of None \<Rightarrow> False
      | Some e \<Rightarrow> underlyingError e = ErrNotExist \<or> underlyingError e = Errno ENOENT)"

definition corruptedErrno :: "error \<Rightarrow> bool" where
  "corruptedErrno u =
     (u = Errno ENOTCONN \<or> u = Errno ESTALE \<or> u = Errno EIO \<or> u = Errno EACCES
      \<or> u = Errno EHOSTDOWN)"

definition mount_IsCorruptedMnt :: "error option \<Rightarrow> bool" where
  "mount_IsCorruptedMnt err =
     (case err of None \<Rightarrow> False
      | Some (PathError op path u) \<Rightarrow> corruptedErrno u
      | Some (Errno n) \<Rightarrow> corruptedErrno (Errno n)
      | Some _ \<Rightarrow> False)"

subsection \<open>Strings\<close>

text \<open>\<open>strings.Contains(s, substr)\<close>: \<open>substr\<close> occurs in \<open>s\<close> as a contiguous run of bytes.\<close>

fun strings_Contains :: "string \<Rightarrow> string \<Rightarrow> bool" where
  "strings_Contains [] substr = (substr = [])"
| "strings_Contains (c # s) substr = (prefix substr (c # s) \<or> strings_Contains s substr)"

text \<open>\<open>strings.Split(s, sep)\<close> for a separator of one byte, as in \<open>strings.Split(s, ",")\<close>.\<close>

fun strings_Split :: "string \<Rightarrow> char \<Rightarrow> string list" where
  "strings_Split [] sep = [[]]"
| "strings_Split (c # s) sep =
     (if c = sep then [] # strings_Split s sep
      else (case strings_Split s sep of [] \<Rightarrow> [[c]] | x # xs \<Rightarrow> (c # x) # xs))"

subsection \<open>Package strconv\<close>

text \<open>
  The parsers return the pair (value, error) as in Go. The text of a \<open>*strconv.NumError\<close>
  quotes its input with \<open>strconv.Quote\<close>, whose Unicode tables are not modelled: the
  quoting function is the parameter \<open>quote\<close>.
\<close>

definition syntaxError :: "(string \<Rightarrow> string) \<Rightarrow> string \<Rightarrow> string \<Rightarrow> error" where
  "syntaxError quote fn str =
     ErrorString (''strconv.'' @ fn @ '': parsing '' @ quote str @ '': invalid syntax'')"

definition rangeError :: "(string \<Rightarrow> string) \<Rightarrow> string \<Rightarrow> string \<Rightarrow> error" where
  "rangeError quote fn str =
     ErrorString (''strconv.'' @ fn @ '': parsing '' @ quote str @ '': value out of range'')"

definition strconv_ParseBool :: "(string \<Rightarrow> string) \<Rightarrow> string \<Rightarrow> bool \<times> error option" where
  "strconv_ParseBool quote str =
     (if str \<in> set [''1'', ''t'', ''T'', ''TRUE'', ''true'', ''True''] then (True, None)
      else if str \<in> set [''0'', ''f'', ''F'', ''FALSE'', ''false'', ''False''] then (False, None)
      else (False, Some (syntaxError quote ''ParseBool'' str)))"

definition strconv_FormatBool :: "bool \<Rightarrow> string" where
  "strconv_FormatBool b = (if b then ''true'' else ''false'')"

definition isDigit :: "char \<Rightarrow> bool" where
  "isDigit ch = (48 \<le> (of_char ch :: nat) \<and> (of_char ch :: nat) \<le> 57)"

fun decimal :: "nat \<Rightarrow> string \<Rightarrow> nat" where
  "decimal n [] = n"
| "decimal n (ch # s) = decimal (n * 10 + ((of_char ch :: nat) - 48)) s"

text \<open>
  \<open>strconv.Atoi\<close> on a platform whose \<open>int\<close> has 64 bits: an optional sign, then one or
  more decimal digits. On a syntax error the value is 0, out of range it is the nearest
  bound.
\<close>

definition strconv_Atoi :: "(string \<Rightarrow> string) \<Rightarrow> string \<Rightarrow> int \<times> error option" where
  "strconv_Atoi quote s =
     (let neg = (case s of [] \<Rightarrow> False | ch # r \<Rightarrow> ch = CHR ''-'');
          body = (case s of [] \<Rightarrow> []
                  | ch # r \<Rightarrow> if ch = CHR ''-'' \<or> ch = CHR ''+'' then r else s)
      in if body = [] \<or> \<not> list_all isDigit body then (0, Some (syntaxError quote ''Atoi'' s))
         else let un = int (decimal 0 body)
              in if \<not> neg \<and> 2 ^ 63 \<le> un then (2 ^ 63 - 1, Some (rangeError quote ''Atoi'' s))
                 else if neg \<and> 2 ^ 63 < un then (- (2 ^ 63), Some (rangeError quote ''Atoi'' s))
                 else (if neg then - un else un, None))"

section \<open>Volume parameter resolver\<close>

subsection \<open>Declarations of other packages\<close>

text \<open>
  \<open>longhornclient.Volume\<close>, restricted to the fields \<open>getVolumeOptions\<close> assigns. A slice
  is a list option, \<open>None\<close> being the nil slice. The element type of the recurring job
  selector is declared in package longhornclient and only passed through here.
\<close>

typedecl VolumeRecurringJob

record Volume =
  StaleReplicaTimeout :: int
  AccessMode :: string
  Migratable :: bool
  Encrypted :: bool
  NumberOfReplicas :: int
  ReplicaAutoBalance :: string
  DataLocality :: string
  RevisionCounterDisabled :: bool
  UnmapMarkSnapChainRemoved :: string
  ReplicaSoftAntiAffinity :: string
  ReplicaZoneSoftAntiAffinity :: string
  ReplicaDiskSoftAntiAffinity :: string
  FromBackup :: string
  BackupTargetName :: string
  DataSource :: string
  BackingImage :: string
  RecurringJobSelector :: "VolumeRecurringJob list option"
  DiskSelector :: "string list option"
  NodeSelector :: "string list option"
  DataEngine :: string
  Frontend :: string
  FreezeFilesystemForSnapshot :: string

text \<open>
  What util.go takes from packages whose source is not part of the tree under study:
  the string constants of package longhorn (access modes, backing image parameter names),
  the validators of package types, and from the Go library
  \<open>json.Unmarshal\<close> into a slice of recurring jobs, \<open>json.Marshal\<close> of a string map and
  \<open>strconv.Quote\<close>. They are parameters of the model.
\<close>

record external =
  AccessModeReadWriteMany :: string
  AccessModeReadWriteOnce :: string
  BackingImageParameterName :: string
  BackingImageParameterDataSourceType :: string
  BackingImageParameterChecksum :: string
  BackingImageParameterDataSourceParameters :: string
  ValidateReplicaAutoBalance :: "string \<Rightarrow> error option"
  ValidateDataLocality :: "string \<Rightarrow> error option"
  ValidateUnmapMarkSnapChainRemoved :: "string \<Rightarrow> string \<Rightarrow> error option"
  ValidateReplicaSoftAntiAffinity :: "string \<Rightarrow> error option"
  ValidateReplicaZoneSoftAntiAffinity :: "string \<Rightarrow> error option"
  ValidateReplicaDiskSoftAntiAffinity :: "string \<Rightarrow> error option"
  ValidateFreezeFilesystemForSnapshot :: "string \<Rightarrow> error option"
  json_Unmarshal :: "string \<Rightarrow> VolumeRecurringJob list option \<times> error option"
  json_Marshal :: "(string \<rightharpoonup> string) option \<Rightarrow> string"
  Quote :: "string \<Rightarrow> string"

text \<open>
  Modelled from the spec: the constant \<open>longhorn.DataEngineTypeV1\<close> is declared outside
  the tree; the spec gives the data-engine default as "v1".
\<close>

definition DataEngineTypeV1 :: string where
  "DataEngineTypeV1 = ''v1''"

subsection \<open>Constants of util.go\<close>

definition defaultStaleReplicaTimeout :: int where
  "defaultStaleReplicaTimeout = 2880"

definition defaultStorageClassDisableRevisionCounterParameter :: bool where
  "defaultStorageClassDisableRevisionCounterParameter = True"

subsection \<open>getVolumeOptions\<close>

text \<open>
  The function body is a sequence of blocks, each of which either returns \<open>(nil, err)\<close>
  or falls through to the next. The state between blocks is the options map (the
  function writes to its argument) and the volume under construction. \<open>Inl (err, m)\<close>
  is the return of \<open>(nil, err)\<close> with the map left as \<open>m\<close>; \<open>err\<close> is the error value
  returned, which can be nil.
\<close>

type_synonym opts = "string \<rightharpoonup> string"

type_synonym gstate = "opts \<times> Volume"

type_synonym flow = "(error option \<times> opts) + gstate"

definition andThen :: "flow \<Rightarrow> (gstate \<Rightarrow> flow) \<Rightarrow> flow" where
  "andThen r block = (case r of Inl ret \<Rightarrow> Inl ret | Inr st \<Rightarrow> block st)"

text \<open>The block \<open>if v, ok := volOptions[key]; ok { body }\<close>, for a body that only reads the map.\<close>

definition ifPresent :: "string \<Rightarrow> (string \<Rightarrow> Volume \<Rightarrow> error option + Volume) \<Rightarrow> gstate \<Rightarrow> flow" where
  "ifPresent key body st =
     (case fst st key of
        None \<Rightarrow> Inr st
      | Some v \<Rightarrow> (case body v (snd st) of
                    Inl err \<Rightarrow> Inl (err, fst st)
                  | Inr vol \<Rightarrow> Inr (fst st, vol)))"

text \<open>\<open>vol := &longhornclient.Volume{}\<close>: every field has its zero value.\<close>

definition newVolume :: Volume where
  "newVolume = \<lparr> StaleReplicaTimeout = 0, AccessMode = [], Migratable = False,
     Encrypted = False, NumberOfReplicas = 0, ReplicaAutoBalance = [], DataLocality = [],
     RevisionCounterDisabled = False, UnmapMarkSnapChainRemoved = [],
     ReplicaSoftAntiAffinity = [], ReplicaZoneSoftAntiAffinity = [],
     ReplicaDiskSoftAntiAffinity = [], FromBackup = [], BackupTargetName = [],
     DataSource = [], BackingImage = [], RecurringJobSelector = None, DiskSelector = None,
     NodeSelector = None, DataEngine = [], Frontend = [], FreezeFilesystemForSnapshot = [] \<rparr>"

text \<open>Lines 99 to 108.\<close>

definition opt_staleReplicaTimeout :: "external \<Rightarrow> gstate \<Rightarrow> flow" where
  "opt_staleReplicaTimeout X =
     ifPresent ''staleReplicaTimeout'' (\<lambda>staleReplicaTimeout vol.
       case strconv_Atoi (Quote X) staleReplicaTimeout of
         (srt, err) \<Rightarrow>
           if err \<noteq> None then Inl (errors_Wrap err ''invalid parameter staleReplicaTimeout'')
           else Inr (vol\<lparr>StaleReplicaTimeout := srt\<rparr>))"

definition fill_staleReplicaTimeout :: "gstate \<Rightarrow> flow" where
  "fill_staleReplicaTimeout st =
     (if StaleReplicaTimeout (snd st) \<le> 0
      then Inr (fst st, (snd st)\<lparr>StaleReplicaTimeout := defaultStaleReplicaTimeout\<rparr>)
      else Inr st)"

text \<open>Lines 110 to 121.\<close>

definition opt_share :: "external \<Rightarrow> gstate \<Rightarrow> flow" where
  "opt_share X =
     ifPresent ''share'' (\<lambda>share vol.
       case strconv_ParseBool (Quote X) share of
         (isShared, err) \<Rightarrow>
           if err \<noteq> None then Inl (errors_Wrap err ''invalid parameter share'')
           else if isShared then Inr (vol\<lparr>AccessMode := AccessModeReadWriteMany X\<rparr>)
           else Inr (vol\<lparr>AccessMode := AccessModeReadWriteOnce X\<rparr>))"

text \<open>
  Lines 123 to 136. This block writes \<open>volOptions["migratable"]\<close> when it downgrades the
  request; the log line is not modelled, so \<open>volumeID\<close> is unused.
\<close>

definition opt_migratable :: "external \<Rightarrow> string \<Rightarrow> gstate \<Rightarrow> flow" where
  "opt_migratable X volumeID st =
     (case fst st ''migratable'' of
        None \<Rightarrow> Inr st
      | Some migratable \<Rightarrow>
          (case strconv_ParseBool (Quote X) migratable of
             (isMigratable, err) \<Rightarrow>
               if err \<noteq> None then Inl (errors_Wrap err ''invalid parameter migratable'', fst st)
               else if isMigratable \<and> AccessMode (snd st) \<noteq> AccessModeReadWriteMany X
               then Inr ((fst st)(''migratable'' \<mapsto> strconv_FormatBool False),
                         (snd st)\<lparr>Migratable := False\<rparr>)
               else Inr (fst st, (snd st)\<lparr>Migratable := isMigratable\<rparr>)))"

text \<open>Lines 138 to 152.\<close>

definition opt_encrypted :: "external \<Rightarrow> gstate \<Rightarrow> flow" where
  "opt_encrypted X =
     ifPresent ''encrypted'' (\<lambda>encrypted vol.
       case strconv_ParseBool (Quote X) encrypted of
         (isEncrypted, err) \<Rightarrow>
           if err \<noteq> None then Inl (errors_Wrap err ''invalid parameter encrypted'')
           else Inr (vol\<lparr>Encrypted := isEncrypted\<rparr>))"

definition opt_numberOfReplicas :: "external \<Rightarrow> gstate \<Rightarrow> flow" where
  "opt_numberOfReplicas X =
     ifPresent ''numberOfReplicas'' (\<lambda>numberOfReplicas vol.
       case strconv_Atoi (Quote X) numberOfReplicas of
         (nor, err) \<Rightarrow>
           if err \<noteq> None \<or> nor < 0
           then Inl (errors_Wrap err ''invalid parameter numberOfReplicas'')
           else Inr (vol\<lparr>NumberOfReplicas := nor\<rparr>))"

text \<open>Lines 154 to 167.\<close>

definition opt_replicaAutoBalance :: "external \<Rightarrow> gstate \<Rightarrow> flow" where
  "opt_replicaAutoBalance X =
     ifPresent ''replicaAutoBalance'' (\<lambda>replicaAutoBalance vol.
       let err = ValidateReplicaAutoBalance X replicaAutoBalance
       in if err \<noteq> None then Inl (errors_Wrap err ''invalid parameter replicaAutoBalance'')
          else Inr (vol\<lparr>ReplicaAutoBalance := replicaAutoBalance\<rparr>))"

definition opt_dataLocality :: "external \<Rightarrow> gstate \<Rightarrow> flow" where
  "opt_dataLocality X =
     ifPresent ''dataLocality'' (\<lambda>locality vol.
       let err = ValidateDataLocality X locality
       in if err \<noteq> None then Inl (errors_Wrap err ''invalid parameter dataLocality'')
          else Inr (vol\<lparr>DataLocality := locality\<rparr>))"

text \<open>Lines 169 to 177: the only block with an else branch.\<close>

definition opt_disableRevisionCounter :: "external \<Rightarrow> gstate \<Rightarrow> flow" where
  "opt_disableRevisionCounter X st =
     (case fst st ''disableRevisionCounter'' of
        Some revisionCounterDisabled \<Rightarrow>
          (case strconv_ParseBool (Quote X) revisionCounterDisabled of
             (revCounterDisabled, err) \<Rightarrow>
               if err \<noteq> None
               then Inl (errors_Wrap err ''invalid parameter disableRevisionCounter'', fst st)
               else Inr (fst st, (snd st)\<lparr>RevisionCounterDisabled := revCounterDisabled\<rparr>))
      | None \<Rightarrow>
          Inr (fst st, (snd st)\<lparr>RevisionCounterDisabled :=
                 defaultStorageClassDisableRevisionCounterParameter\<rparr>))"

text \<open>
  Lines 179 to 205. The validator of \<open>unmapMarkSnapChainRemoved\<close> receives the data engine
  the volume has at this point of the function.
\<close>

definition opt_unmapMarkSnapChainRemoved :: "external \<Rightarrow> gstate \<Rightarrow> flow" where
  "opt_unmapMarkSnapChainRemoved X =
     ifPresent ''unmapMarkSnapChainRemoved'' (\<lambda>unmapMarkSnapChainRemoved vol.
       let err = ValidateUnmapMarkSnapChainRemoved X (DataEngine vol) unmapMarkSnapChainRemoved
       in if err \<noteq> None then Inl (errors_Wrap err ''invalid parameter unmapMarkSnapChainRemoved'')
          else Inr (vol\<lparr>UnmapMarkSnapChainRemoved := unmapMarkSnapChainRemoved\<rparr>))"

definition opt_replicaSoftAntiAffinity :: "external \<Rightarrow> gstate \<Rightarrow> flow" where
  "opt_replicaSoftAntiAffinity X =
     ifPresent ''replicaSoftAntiAffinity'' (\<lambda>replicaSoftAntiAffinity vol.
       let err = ValidateReplicaSoftAntiAffinity X replicaSoftAntiAffinity
       in if err \<noteq> None then Inl (errors_Wrap err ''invalid parameter replicaSoftAntiAffinity'')
          else Inr (vol\<lparr>ReplicaSoftAntiAffinity := replicaSoftAntiAffinity\<rparr>))"

definition opt_replicaZoneSoftAntiAffinity :: "external \<Rightarrow> gstate \<Rightarrow> flow" where
  "opt_replicaZoneSoftAntiAffinity X =
     ifPresent ''replicaZoneSoftAntiAffinity'' (\<lambda>replicaZoneSoftAntiAffinity vol.
       let err = ValidateReplicaZoneSoftAntiAffinity X replicaZoneSoftAntiAffinity
       in if err \<noteq> None
          then Inl (errors_Wrap err ''invalid parameter replicaZoneSoftAntiAffinity'')
          else Inr (vol\<lparr>ReplicaZoneSoftAntiAffinity := replicaZoneSoftAntiAffinity\<rparr>))"

definition opt_replicaDiskSoftAntiAffinity :: "external \<Rightarrow> gstate \<Rightarrow> flow" where
  "opt_replicaDiskSoftAntiAffinity X =
     ifPresent ''replicaDiskSoftAntiAffinity'' (\<lambda>replicaDiskSoftAntiAffinity vol.
       let err = ValidateReplicaDiskSoftAntiAffinity X replicaDiskSoftAntiAffinity
       in if err \<noteq> None
          then Inl (errors_Wrap err ''invalid parameter replicaDiskSoftAntiAffinity'')
          else Inr (vol\<lparr>ReplicaDiskSoftAntiAffinity := replicaDiskSoftAntiAffinity\<rparr>))"

text \<open>Lines 207 to 221: plain copies.\<close>

definition opt_fromBackup :: "gstate \<Rightarrow> flow" where
  "opt_fromBackup = ifPresent ''fromBackup'' (\<lambda>fromBackup vol. Inr (vol\<lparr>FromBackup := fromBackup\<rparr>))"

definition opt_backupTargetName :: "gstate \<Rightarrow> flow" where
  "opt_backupTargetName =
     ifPresent ''backupTargetName'' (\<lambda>backupTargetName vol.
       Inr (vol\<lparr>BackupTargetName := backupTargetName\<rparr>))"

definition opt_dataSource :: "gstate \<Rightarrow> flow" where
  "opt_dataSource = ifPresent ''dataSource'' (\<lambda>dataSource vol. Inr (vol\<lparr>DataSource := dataSource\<rparr>))"

definition opt_backingImage :: "external \<Rightarrow> gstate \<Rightarrow> flow" where
  "opt_backingImage X =
     ifPresent (BackingImageParameterName X) (\<lambda>backingImage vol.
       Inr (vol\<lparr>BackingImage := backingImage\<rparr>))"

text \<open>Lines 223 to 238.\<close>

definition opt_recurringJobSelector :: "external \<Rightarrow> gstate \<Rightarrow> flow" where
  "opt_recurringJobSelector X =
     ifPresent ''recurringJobSelector'' (\<lambda>jsonRecurringJobSelector vol.
       case json_Unmarshal X jsonRecurringJobSelector of
         (recurringJobSelector, err) \<Rightarrow>
           if err \<noteq> None then Inl (errors_Wrap err ''invalid json format of recurringJobSelector'')
           else Inr (vol\<lparr>RecurringJobSelector := recurringJobSelector\<rparr>))"

definition opt_diskSelector :: "gstate \<Rightarrow> flow" where
  "opt_diskSelector =
     ifPresent ''diskSelector'' (\<lambda>diskSelector vol.
       Inr (vol\<lparr>DiskSelector := Some (strings_Split diskSelector (CHR '',''))\<rparr>))"

definition opt_nodeSelector :: "gstate \<Rightarrow> flow" where
  "opt_nodeSelector =
     ifPresent ''nodeSelector'' (\<lambda>nodeSelector vol.
       Inr (vol\<lparr>NodeSelector := Some (strings_Split nodeSelector (CHR '',''))\<rparr>))"

text \<open>Lines 240 to 254.\<close>

definition opt_dataEngine :: "gstate \<Rightarrow> flow" where
  "opt_dataEngine st =
     ifPresent ''dataEngine'' (\<lambda>driver vol. Inr (vol\<lparr>DataEngine := driver\<rparr>))
       (fst st, (snd st)\<lparr>DataEngine := DataEngineTypeV1\<rparr>)"

definition opt_frontend :: "gstate \<Rightarrow> flow" where
  "opt_frontend = ifPresent ''frontend'' (\<lambda>frontend vol. Inr (vol\<lparr>Frontend := frontend\<rparr>))"

definition opt_freezeFilesystemForSnapshot :: "external \<Rightarrow> gstate \<Rightarrow> flow" where
  "opt_freezeFilesystemForSnapshot X =
     ifPresent ''freezeFilesystemForSnapshot'' (\<lambda>freezeFilesystemForSnapshot vol.
       let err = ValidateFreezeFilesystemForSnapshot X freezeFilesystemForSnapshot
       in if err \<noteq> None
          then Inl (errors_Wrap err ''invalid parameter freezeFilesystemForSnapshot'')
          else Inr (vol\<lparr>FreezeFilesystemForSnapshot := freezeFilesystemForSnapshot\<rparr>))"

text \<open>
  The blocks in the order of the source, split where the \<open>migratable\<close> block stands.
\<close>

definition blocksBefore :: "external \<Rightarrow> (gstate \<Rightarrow> flow) list" where
  "blocksBefore X = [opt_staleReplicaTimeout X, fill_staleReplicaTimeout, opt_share X]"

definition blocksAfter :: "external \<Rightarrow> (gstate \<Rightarrow> flow) list" where
  "blocksAfter X =
     [opt_encrypted X, opt_numberOfReplicas X, opt_replicaAutoBalance X, opt_dataLocality X,
      opt_disableRevisionCounter X, opt_unmapMarkSnapChainRemoved X,
      opt_replicaSoftAntiAffinity X, opt_replicaZoneSoftAntiAffinity X,
      opt_replicaDiskSoftAntiAffinity X, opt_fromBackup, opt_backupTargetName,
      opt_dataSource, opt_backingImage X, opt_recurringJobSelector X, opt_diskSelector,
      opt_nodeSelector, opt_dataEngine, opt_frontend, opt_freezeFilesystemForSnapshot X]"

text \<open>
  The result is the returned pair (volume pointer, error) and the options map as the call
  leaves it.
\<close>

definition getVolumeOptions ::
  "external \<Rightarrow> string \<Rightarrow> opts \<Rightarrow> (Volume option \<times> error option) \<times> opts" where
  "getVolumeOptions X volumeID volOptions =
     (case foldl andThen (Inr (volOptions, newVolume))
             (blocksBefore X @ [opt_migratable X volumeID] @ blocksAfter X) of
        Inl (err, m) \<Rightarrow> ((None, err), m)
      | Inr (m, vol) \<Rightarrow> ((Some vol, None), m))"

text \<open>
  Two runs of the chain have the same outcome when both return with the same error, or
  both go on with the same volume and with maps that agree on every key but
  \<open>migratable\<close>. This compares a call with the call on the map without that key.
\<close>

definition sameOutcome :: "flow \<Rightarrow> flow \<Rightarrow> bool" where
  "sameOutcome r r' =
     (case r of
        Inl ret \<Rightarrow> (case r' of Inl ret' \<Rightarrow> fst ret = fst ret' | Inr st' \<Rightarrow> False)
      | Inr st \<Rightarrow>
          (case r' of
             Inl ret' \<Rightarrow> False
           | Inr st' \<Rightarrow> snd st = snd st' \<and>
               (\<forall>k. k = ''migratable'' \<or> fst st k = fst st' k)))"

subsection \<open>updateVolumeParamsForBackingImage\<close>

text \<open>
  Both arguments are Go maps that the function mutates; \<open>None\<close> is the nil map. Reading a
  missing key (or a nil map) gives the empty string, \<open>delete\<close> on a nil map does nothing,
  and an assignment into a nil map panics: the result \<open>None\<close>. Otherwise the result is
  the two maps as the call leaves them.
\<close>

definition map_index :: "opts option \<Rightarrow> string \<Rightarrow> string" where
  "map_index m k = (case m of None \<Rightarrow> [] | Some f \<Rightarrow> (case f k of None \<Rightarrow> [] | Some v \<Rightarrow> v))"

definition map_delete :: "opts option \<Rightarrow> string \<Rightarrow> opts option" where
  "map_delete m k = (case m of None \<Rightarrow> None | Some f \<Rightarrow> Some (f(k := None)))"

text \<open>The body of the loop over \<open>BackingImageInfoFields\<close>.\<close>

definition liftField :: "string \<Rightarrow> opts \<times> opts option \<Rightarrow> opts \<times> opts option" where
  "liftField v st =
     ((fst st)(v \<mapsto> map_index (snd st) v), map_delete (snd st) v)"

definition updateVolumeParamsForBackingImage ::
  "external \<Rightarrow> opts option \<Rightarrow> opts option \<Rightarrow> (opts \<times> opts option) option" where
  "updateVolumeParamsForBackingImage X volumeParameters backingImageParameters =
     (case volumeParameters of
        None \<Rightarrow> None
      | Some vp \<Rightarrow>
          (let BackingImageInfoFields =
                 [BackingImageParameterName X, BackingImageParameterDataSourceType X,
                  BackingImageParameterChecksum X];
               st = fold liftField BackingImageInfoFields (vp, backingImageParameters);
               backingImageParametersStr = json_Marshal X (snd st)
           in Some ((fst st)(BackingImageParameterDataSourceParameters X \<mapsto>
                               backingImageParametersStr), snd st)))"

subsection \<open>requiresSharedAccess\<close>

text \<open>
  The enum and messages of the CSI library. \<open>VolumeCapability.AccessMode\<close> is a pointer
  field; the function reads \<open>cap.AccessMode.Mode\<close> without a nil check, so a capability
  without access mode makes it panic: the result \<open>None\<close>.
\<close>

datatype VolumeCapability_AccessMode_Mode =
    VolumeCapability_AccessMode_UNKNOWN
  | VolumeCapability_AccessMode_SINGLE_NODE_WRITER
  | VolumeCapability_AccessMode_SINGLE_NODE_READER_ONLY
  | VolumeCapability_AccessMode_MULTI_NODE_READER_ONLY
  | VolumeCapability_AccessMode_MULTI_NODE_SINGLE_WRITER
  | VolumeCapability_AccessMode_MULTI_NODE_MULTI_WRITER
  | VolumeCapability_AccessMode_SINGLE_NODE_SINGLE_WRITER
  | VolumeCapability_AccessMode_SINGLE_NODE_MULTI_WRITER

record VolumeCapability_AccessMode =
  Mode :: VolumeCapability_AccessMode_Mode

record VolumeCapability =
  AccessMode_ptr :: "VolumeCapability_AccessMode option"

definition requiresSharedAccess ::
  "external \<Rightarrow> Volume option \<Rightarrow> VolumeCapability option \<Rightarrow> bool option" where
  "requiresSharedAccess X vol cap =
     (let isSharedVolume =
            (case vol of None \<Rightarrow> False
             | Some v \<Rightarrow> AccessMode v = AccessModeReadWriteMany X \<or> Migratable v);
          mode =
            (case cap of None \<Rightarrow> Some VolumeCapability_AccessMode_UNKNOWN
             | Some c \<Rightarrow> map_option Mode (AccessMode_ptr c))
      in case mode of
           None \<Rightarrow> None
         | Some m \<Rightarrow>
             Some (isSharedVolume \<or>
                   m = VolumeCapability_AccessMode_MULTI_NODE_READER_ONLY \<or>
                   m = VolumeCapability_AccessMode_MULTI_NODE_SINGLE_WRITER \<or>
                   m = VolumeCapability_AccessMode_MULTI_NODE_MULTI_WRITER))"

section \<open>Mount lifecycle engine\<close>

subsection \<open>The operating system and the mounter\<close>

text \<open>
  The functions of this part act on the node: the file system and the mount table. The
  state of the node is a value of the type variable \<open>'s\<close>, passed through every call; each
  primitive takes the state and returns its Go result with the next state. An operation
  that returns a value and an error is a sum, \<open>Inl\<close> the error. Permissions are the
  numbers of the octal literals; open flags are the set of the flags or-ed together.
  Calls to logrus change no result and are left out.
\<close>

datatype oflag = O_SYNC | O_CREATE | O_RDWR | O_TRUNC

type_synonym File = nat

record FileInfo =
  IsDir :: bool

record Stat_t =
  Mode_bits :: "32 word"

record Statfs_t =
  Bsize :: "64 word"
  Blocks :: "64 word"
  Bfree :: "64 word"
  Bavail :: "64 word"
  Files :: "64 word"
  Ffree :: "64 word"

record 's os =
  OpenFile :: "string \<Rightarrow> oflag set \<Rightarrow> nat \<Rightarrow> 's \<Rightarrow> (error + File) \<times> 's"
  Readdirnames :: "File \<Rightarrow> int \<Rightarrow> 's \<Rightarrow> (string list \<times> error option) \<times> 's"
  WriteString :: "File \<Rightarrow> string \<Rightarrow> 's \<Rightarrow> (int \<times> error option) \<times> 's"
  Close :: "File \<Rightarrow> 's \<Rightarrow> error option \<times> 's"
  Remove :: "string \<Rightarrow> 's \<Rightarrow> error option \<times> 's"
  MkdirAll :: "string \<Rightarrow> nat \<Rightarrow> 's \<Rightarrow> error option \<times> 's"
  Stat :: "string \<Rightarrow> 's \<Rightarrow> (error + FileInfo) \<times> 's"
  unix_Stat :: "string \<Rightarrow> 's \<Rightarrow> (error + Stat_t) \<times> 's"
  unix_Statfs :: "string \<Rightarrow> 's \<Rightarrow> (error + Statfs_t) \<times> 's"
  path_Join :: "string \<Rightarrow> string \<Rightarrow> string"

text \<open>
  \<open>mount.Interface\<close> with the three methods util.go calls. \<open>UnmountWithForce\<close> is present
  exactly when the dynamic type of the mounter also implements
  \<open>mount.MounterForceUnmounter\<close>, which is what the type assertion in \<open>unmount\<close> tests.
  \<open>mount.CleanupMountPoint\<close> is a function of the library that takes the mounter.
\<close>

record 's mounter =
  IsMountPoint :: "string \<Rightarrow> 's \<Rightarrow> (bool \<times> error option) \<times> 's"
  Unmount :: "string \<Rightarrow> 's \<Rightarrow> error option \<times> 's"
  UnmountWithForce :: "(string \<Rightarrow> int \<Rightarrow> 's \<Rightarrow> error option \<times> 's) option"
  CleanupMountPoint :: "string \<Rightarrow> bool \<Rightarrow> 's \<Rightarrow> error option \<times> 's"

definition errOf :: "error + 'a \<Rightarrow> error option" where
  "errOf r = (case r of Inl e \<Rightarrow> Some e | Inr v \<Rightarrow> None)"

text \<open>\<open>errors.Is(err, io.EOF)\<close>: follows the chain of wrapped errors.\<close>

primrec errors_Is_EOF :: "error \<Rightarrow> bool" where
  "errors_Is_EOF (ErrorString s) = False"
| "errors_Is_EOF (Errno e) = False"
| "errors_Is_EOF (PathError op path err) = errors_Is_EOF err"
| "errors_Is_EOF ErrNotExist = False"
| "errors_Is_EOF EOF = True"
| "errors_Is_EOF (WithMessage cause msg) = errors_Is_EOF cause"

subsection \<open>Constants of util.go\<close>

text \<open>A \<open>time.Duration\<close> counts nanoseconds.\<close>

definition Second :: int where
  "Second = 1000000000"

definition defaultForceUmountTimeout :: int where
  "defaultForceUmountTimeout = 30 * Second"

definition tempTestMountPointValidStatusFile :: string where
  "tempTestMountPointValidStatusFile = ''.longhorn-volume-mount-point-test.tmp''"

definition perm_0750 :: nat where
  "perm_0750 = 7 * 64 + 5 * 8 + 0"

definition perm_0666 :: nat where
  "perm_0666 = 6 * 64 + 6 * 8 + 6"

definition ModePerm :: nat where
  "ModePerm = 7 * 64 + 7 * 8 + 7"

subsection \<open>syncMountPointDirectory\<close>

text \<open>
  The part of the body that runs while the directory \<open>d\<close> is open. The deferred call for
  the sentinel file closes and removes it, ignoring both errors, before the value is
  returned.
\<close>

definition probeOpenDirectory :: "'s os \<Rightarrow> string \<Rightarrow> File \<Rightarrow> 's \<Rightarrow> error option \<times> 's" where
  "probeOpenDirectory sys targetPath d s1 =
     (case Readdirnames sys d 1 s1 of
        ((names, err), s2) \<Rightarrow>
          if (case err of None \<Rightarrow> False | Some e \<Rightarrow> \<not> errors_Is_EOF e) then (err, s2)
          else
            (let tempFile = path_Join sys targetPath tempTestMountPointValidStatusFile
             in case OpenFile sys tempFile {O_CREATE, O_RDWR, O_SYNC, O_TRUNC} perm_0666 s2 of
                  (Inl err, s3) \<Rightarrow> (Some err, s3)
                | (Inr f, s3) \<Rightarrow>
                    (case WriteString sys f tempFile s3 of
                       ((n, werr), s4) \<Rightarrow>
                         (case Close sys f s4 of
                            (closeErr, s5) \<Rightarrow>
                              (case Remove sys tempFile s5 of
                                 (removeErr, s6) \<Rightarrow> (werr, s6))))))"

definition syncMountPointDirectory :: "'s os \<Rightarrow> string \<Rightarrow> 's \<Rightarrow> error option \<times> 's" where
  "syncMountPointDirectory sys targetPath s0 =
     (case OpenFile sys targetPath {O_SYNC} perm_0750 s0 of
        (Inl err, s1) \<Rightarrow> (Some err, s1)
      | (Inr d, s1) \<Rightarrow>
          (case probeOpenDirectory sys targetPath d s1 of
             (ret, s2) \<Rightarrow>
               (case Close sys d s2 of (closeErr, s3) \<Rightarrow> (ret, s3))))"

subsection \<open>unmount\<close>

definition unmount :: "string \<Rightarrow> 's mounter \<Rightarrow> 's \<Rightarrow> error option \<times> 's" where
  "unmount path mounter s0 =
     (case (case UnmountWithForce mounter of
              Some forceUnmount \<Rightarrow> forceUnmount path defaultForceUmountTimeout s0
            | None \<Rightarrow> Unmount mounter path s0) of
        (err, s1) \<Rightarrow>
          (case err of
             None \<Rightarrow> (None, s1)
           | Some e \<Rightarrow>
               if strings_Contains (Error e) ''not mounted'' \<or>
                  strings_Contains (Error e) ''no mount point specified''
               then (None, s1)
               else (err, s1)))"

subsection \<open>ensureMountPoint\<close>

text \<open>
  \<open>fmt.Errorf\<close> with the format of line 321. The third argument is the variable \<open>err\<close> of
  the function body, the error of \<open>IsMountPoint\<close>: the \<open>err\<close> of the probe is declared in
  the \<open>if\<close> of line 312 and is out of scope here.
\<close>

definition unmountCorruptError :: "string \<Rightarrow> error \<Rightarrow> error option \<Rightarrow> error" where
  "unmountCorruptError path unmountErr err =
     ErrorString (''failed to unmount corrupt mount point '' @ path @ '' umount error: '' @
                  Error unmountErr @ '' eval error: '' @ fmt_v err)"

definition ensureMountPoint ::
  "'s os \<Rightarrow> string \<Rightarrow> 's mounter \<Rightarrow> 's \<Rightarrow> (bool \<times> error option) \<times> 's" where
  "ensureMountPoint sys path mounter s0 =
     (case IsMountPoint mounter path s0 of
        ((isMnt, err), s1) \<Rightarrow>
          if os_IsNotExist err
          then (case MkdirAll sys path perm_0750 s1 of (mkErr, s2) \<Rightarrow> ((False, mkErr), s2))
          else
            (case (if \<not> mount_IsCorruptedMnt err
                   then (case syncMountPointDirectory sys path s1 of
                           (syncErr, s2) \<Rightarrow> (syncErr \<noteq> None, s2))
                   else (True, s1)) of
               (IsCorruptedMnt, s2) \<Rightarrow>
                 if IsCorruptedMnt
                 then (case unmount path mounter s2 of
                         (unmountErr, s3) \<Rightarrow>
                           (case unmountErr of
                              Some ue \<Rightarrow> ((False, Some (unmountCorruptError path ue err)), s3)
                            | None \<Rightarrow> ((False, None), s3)))
                 else ((isMnt, err), s2)))"

subsection \<open>ensureDirectory\<close>

definition notFolderError :: "string \<Rightarrow> error" where
  "notFolderError path = ErrorString (''path '' @ path @ '' exists but is not a folder'')"

definition ensureDirectory :: "'s os \<Rightarrow> string \<Rightarrow> 's \<Rightarrow> (bool \<times> error option) \<times> 's" where
  "ensureDirectory sys path s0 =
     (case Stat sys path s0 of
        (r, s1) \<Rightarrow>
          if os_IsNotExist (errOf r)
          then (case MkdirAll sys path ModePerm s1 of
                  (err, s2) \<Rightarrow> if err \<noteq> None then ((False, err), s2) else ((True, None), s2))
          else (case r of
                  Inl err \<Rightarrow> ((False, Some err), s1)
                | Inr fileInfo \<Rightarrow>
                    if IsDir fileInfo then ((True, None), s1)
                    else ((False, Some (notFolderError path)), s1)))"

subsection \<open>unmountAndCleanupMountPoint\<close>

definition unmountAndCleanupMountPoint :: "string \<Rightarrow> 's mounter \<Rightarrow> 's \<Rightarrow> error option \<times> 's" where
  "unmountAndCleanupMountPoint path mounter s0 =
     (case unmount path mounter s0 of
        (err, s1) \<Rightarrow>
          if err \<noteq> None then (err, s1)
          else CleanupMountPoint mounter path True s1)"

subsection \<open>isBlockDevice and getFilesystemStatistics\<close>

definition S_IFMT :: "32 word" where
  "S_IFMT = 0xf000"

definition S_IFBLK :: "32 word" where
  "S_IFBLK = 0x6000"

definition isBlockDevice :: "'s os \<Rightarrow> string \<Rightarrow> 's \<Rightarrow> (bool \<times> error option) \<times> 's" where
  "isBlockDevice sys volumePath s0 =
     (case unix_Stat sys volumePath s0 of
        (Inl err, s1) \<Rightarrow> ((False, Some err), s1)
      | (Inr stat, s1) \<Rightarrow>
          if and (Mode_bits stat) S_IFMT = S_IFBLK then ((True, None), s1)
          else ((False, None), s1))"

text \<open>
  The fields of \<open>volumeFilesystemStatistics\<close> are \<open>int64\<close>; those of \<open>unix.Statfs_t\<close> on
  linux/amd64 and linux/arm64 are \<open>uint64\<close>, but for \<open>Bsize\<close>, which is \<open>int64\<close>. Both are
  64-bit words here: the conversion \<open>int64(x)\<close> keeps the bits, the arithmetic wraps, and
  \<open>sint\<close> reads an \<open>int64\<close>, \<open>uint\<close> a \<open>uint64\<close>.
\<close>

record volumeFilesystemStatistics =
  availableBytes :: "64 word"
  totalBytes :: "64 word"
  usedBytes :: "64 word"
  availableInodes :: "64 word"
  totalInodes :: "64 word"
  usedInodes :: "64 word"

definition getFilesystemStatistics ::
  "'s os \<Rightarrow> string \<Rightarrow> 's \<Rightarrow> (error + volumeFilesystemStatistics) \<times> 's" where
  "getFilesystemStatistics sys volumePath s0 =
     (case unix_Statfs sys volumePath s0 of
        (Inl err, s1) \<Rightarrow> (Inl err, s1)
      | (Inr statfs, s1) \<Rightarrow>
          (Inr \<lparr> availableBytes = Bavail statfs * Bsize statfs,
                 totalBytes = Blocks statfs * Bsize statfs,
                 usedBytes = (Blocks statfs - Bfree statfs) * Bsize statfs,
                 availableInodes = Ffree statfs,
                 totalInodes = Files statfs,
                 usedInodes = Files statfs - Ffree statfs \<rparr>, s1))"

section \<open>Example environments\<close>

text \<open>
  Concrete values for the parameters of the model, used to run the functions on given
  inputs. The constants are those of a Longhorn release; the validators accept every
  value; \<open>exampleMarshal\<close> prints the entries of a map for the keys of a fixed list, in
  that order, without escaping.
\<close>

definition exampleQuote :: "string \<Rightarrow> string" where
  "exampleQuote s = [CHR 0x22] @ s @ [CHR 0x22]"

fun joinWith :: "string \<Rightarrow> string list \<Rightarrow> string" where
  "joinWith sep [] = []"
| "joinWith sep [x] = x"
| "joinWith sep (x # y # ys) = x @ sep @ joinWith sep (y # ys)"

definition exampleMarshal :: "opts option \<Rightarrow> string" where
  "exampleMarshal m =
     (case m of
        None \<Rightarrow> ''null''
      | Some f \<Rightarrow>
          ''{'' @ joinWith '',''
            (concat (map (\<lambda>k. case f k of None \<Rightarrow> []
                               | Some v \<Rightarrow> [exampleQuote k @ '':'' @ exampleQuote v])
                         [''backingImage'', ''backingImageChecksum'',
                          ''backingImageDataSourceType'', ''size'', ''url''])) @ ''}'')"

definition exampleExternal :: external where
  "exampleExternal = \<lparr>
     AccessModeReadWriteMany = ''rwx'',
     AccessModeReadWriteOnce = ''rwo'',
     BackingImageParameterName = ''backingImage'',
     BackingImageParameterDataSourceType = ''backingImageDataSourceType'',
     BackingImageParameterChecksum = ''backingImageChecksum'',
     BackingImageParameterDataSourceParameters = ''backingImageDataSourceParameters'',
     ValidateReplicaAutoBalance = (\<lambda>v. None),
     ValidateDataLocality = (\<lambda>v. None),
     ValidateUnmapMarkSnapChainRemoved = (\<lambda>engine v. None),
     ValidateReplicaSoftAntiAffinity = (\<lambda>v. None),
     ValidateReplicaZoneSoftAntiAffinity = (\<lambda>v. None),
     ValidateReplicaDiskSoftAntiAffinity = (\<lambda>v. None),
     ValidateFreezeFilesystemForSnapshot = (\<lambda>v. None),
     json_Unmarshal = (\<lambda>v. (Some [], None)),
     json_Marshal = exampleMarshal,
     Quote = exampleQuote \<rparr>"

text \<open>
  A node whose state is the list of mounted paths. Its unmount fails on a path that is not
  mounted with the message of umount(8), and removes a mounted path from the list.
\<close>

definition tableUnmount :: "string \<Rightarrow> string list \<Rightarrow> error option \<times> string list" where
  "tableUnmount p s =
     (if p \<in> set s then (None, removeAll p s)
      else (Some (ErrorString (''umount: '' @ p @ '': not mounted.'')), s))"

definition tableMounter :: "bool \<Rightarrow> string list mounter" where
  "tableMounter force = \<lparr>
     IsMountPoint = (\<lambda>p s. ((p \<in> set s, None), s)),
     Unmount = tableUnmount,
     UnmountWithForce = (if force then Some (\<lambda>p timeout s. tableUnmount p s) else None),
     CleanupMountPoint = (\<lambda>p extensive s. (None, s)) \<rparr>"

text \<open>A mounter that answers every call with the given results and leaves the state.\<close>

definition stubMounter :: "bool \<times> error option \<Rightarrow> error option \<Rightarrow> string list mounter" where
  "stubMounter isMnt unmountErr = \<lparr>
     IsMountPoint = (\<lambda>p s. (isMnt, s)),
     Unmount = (\<lambda>p s. (unmountErr, s)),
     UnmountWithForce = None,
     CleanupMountPoint = (\<lambda>p extensive s. (None, s)) \<rparr>"

text \<open>
  An operating system that answers with the given results: opening a file fails with
  \<open>openErr\<close> if given, creating directories with \<open>mkdirErr\<close> if given; directories are
  empty, writes succeed.
\<close>

definition stubOs ::
  "errno option \<Rightarrow> errno option \<Rightarrow> error + FileInfo \<Rightarrow> error + Statfs_t \<Rightarrow> string list os" where
  "stubOs openErr mkdirErr statResult statfsResult = \<lparr>
     OpenFile = (\<lambda>name flag perm s.
       (case openErr of Some e \<Rightarrow> Inl (PathError ''open'' name (Errno e)) | None \<Rightarrow> Inr 3, s)),
     Readdirnames = (\<lambda>f n s. (([], Some EOF), s)),
     WriteString = (\<lambda>f str s. ((int (length str), None), s)),
     Close = (\<lambda>f s. (None, s)),
     Remove = (\<lambda>name s. (None, s)),
     MkdirAll = (\<lambda>path perm s.
       (case mkdirErr of Some e \<Rightarrow> Some (PathError ''mkdir'' path (Errno e)) | None \<Rightarrow> None, s)),
     Stat = (\<lambda>name s. (statResult, s)),
     unix_Stat = (\<lambda>name s. (Inl (Errno ENOENT), s)),
     unix_Statfs = (\<lambda>name s. (statfsResult, s)),
     path_Join = (\<lambda>a b. a @ ''/'' @ b) \<rparr>"

definition exampleStatfs :: Statfs_t where
  "exampleStatfs = \<lparr> Bsize = 4096, Blocks = 1000, Bfree = 400, Bavail = 350,
     Files = 65536, Ffree = 65000 \<rparr>"

section \<open>Properties of the resolver\<close>

lemmas block_defs = opt_staleReplicaTimeout_def fill_staleReplicaTimeout_def opt_share_def
  opt_migratable_def opt_encrypted_def opt_numberOfReplicas_def opt_replicaAutoBalance_def
  opt_dataLocality_def opt_disableRevisionCounter_def opt_unmapMarkSnapChainRemoved_def
  opt_replicaSoftAntiAffinity_def opt_replicaZoneSoftAntiAffinity_def
  opt_replicaDiskSoftAntiAffinity_def opt_fromBackup_def opt_backupTargetName_def
  opt_dataSource_def opt_backingImage_def opt_recurringJobSelector_def opt_diskSelector_def
  opt_nodeSelector_def opt_dataEngine_def opt_frontend_def opt_freezeFilesystemForSnapshot_def

lemmas run_defs = getVolumeOptions_def blocksBefore_def blocksAfter_def andThen_def
  ifPresent_def

subsection \<open>The chain of blocks\<close>

text \<open>
  A run of the chain stops at the first block that returns; a run that ends in \<open>Inr\<close>
  went through every block, so a property that every block of a part of the chain keeps
  holds at its end if it held at its start.
\<close>

lemma andThen_simps: "andThen (Inl r) b = Inl r" "andThen (Inr st) b = b st"
  by (simp_all add: andThen_def)

lemma foldl_andThen_Inl: "foldl andThen (Inl r) bs = Inl r"
  by (induction bs) (simp_all add: andThen_simps)

lemma foldl_andThen_append_Inr:
  assumes "foldl andThen r (as @ bs) = Inr st'"
  obtains st where "foldl andThen r as = Inr st" "foldl andThen (Inr st) bs = Inr st'"
  using assms by (cases "foldl andThen r as") (simp_all add: foldl_andThen_Inl)

lemma foldl_andThen_split:
  assumes "foldl andThen r bs = Inr st'" and "bs = as @ cs"
  obtains st where "foldl andThen r as = Inr st" "foldl andThen (Inr st) cs = Inr st'"
  using assms foldl_andThen_append_Inr [of r as cs st'] by blast

lemma foldl_andThen_invariant:
  assumes "foldl andThen (Inr st) bs = Inr st'" and "I st"
    and "\<forall>b\<in>set bs. \<forall>s s'. I s \<longrightarrow> b s = Inr s' \<longrightarrow> I s'"
  shows "I st'"
  using assms
proof (induction bs arbitrary: st)
  case Nil
  then show ?case by simp
next
  case (Cons b bs)
  show ?case
  proof (cases "b st")
    case (Inl r)
    with Cons.prems(1) show ?thesis by (simp add: andThen_simps foldl_andThen_Inl)
  next
    case (Inr s1)
    have "foldl andThen (Inr s1) bs = Inr st'"
      using Cons.prems(1) Inr by (simp add: andThen_simps)
    moreover have "I s1"
      using Cons.prems(3) [rule_format, of b st s1] Cons.prems(2) Inr by simp
    moreover have "\<forall>b\<in>set bs. \<forall>s s'. I s \<longrightarrow> b s = Inr s' \<longrightarrow> I s'"
      using Cons.prems(3) by (meson list.set_intros(2))
    ultimately show ?thesis by (rule Cons.IH)
  qed
qed

lemma ifPresent_Inr:
  assumes "ifPresent key body st = Inr st'"
  shows "fst st' = fst st"
    and "fst st key = None \<Longrightarrow> snd st' = snd st"
    and "fst st key = Some v \<Longrightarrow> body v (snd st) = Inr (snd st')"
  using assms by (auto simp: ifPresent_def split: option.splits sum.splits)


lemma foldl_andThen_Cons_Inr:
  assumes "foldl andThen (Inr st) (b # bs) = Inr st'"
  obtains s1 where "b st = Inr s1" "foldl andThen (Inr s1) bs = Inr st'"
  using assms by (cases "b st") (simp_all add: andThen_simps foldl_andThen_Inl)

lemma blocksBefore_frame:
  assumes "b \<in> set (blocksBefore X)" "b st = Inr st'"
  shows "fst st' = fst st" "Migratable (snd st') = Migratable (snd st)"
  using assms
  by (auto simp: blocksBefore_def block_defs ifPresent_def Let_def
      split: option.splits prod.splits if_splits)

lemma blocksAfter_frame:
  assumes "b \<in> set (blocksAfter X)" "b st = Inr st'"
  shows "fst st' = fst st" "Migratable (snd st') = Migratable (snd st)"
    "StaleReplicaTimeout (snd st') = StaleReplicaTimeout (snd st)"
  using assms
  by (auto simp: blocksAfter_def block_defs ifPresent_def Let_def
      split: option.splits prod.splits if_splits)

lemma opt_migratable_frame:
  assumes "opt_migratable X volumeID st = Inr st'"
  shows "k \<noteq> ''migratable'' \<Longrightarrow> fst st' k = fst st k"
    "StaleReplicaTimeout (snd st') = StaleReplicaTimeout (snd st)"
    "fst st ''migratable'' = None \<Longrightarrow> st' = st"
  using assms
  by (auto simp: opt_migratable_def split: option.splits prod.splits if_splits)

lemma opt_share_frame:
  assumes "opt_share X st = Inr st'"
  shows "StaleReplicaTimeout (snd st') = StaleReplicaTimeout (snd st)"
  using assms
  by (auto simp: opt_share_def ifPresent_def split: option.splits prod.splits if_splits)

lemma all_blocks_map:
  assumes "b \<in> set (blocksBefore X @ [opt_migratable X volumeID] @ blocksAfter X)"
    and "b st = Inr st'" and "k \<noteq> ''migratable''"
  shows "fst st' k = fst st k"
proof -
  consider "b \<in> set (blocksBefore X)" | "b = opt_migratable X volumeID"
    | "b \<in> set (blocksAfter X)"
    using assms(1) by auto
  then show ?thesis
  proof cases
    case 1
    then show ?thesis using blocksBefore_frame(1) [OF 1 assms(2)] by simp
  next
    case 2
    then show ?thesis using opt_migratable_frame(1) [of X volumeID st st' k] assms(2,3) by simp
  next
    case 3
    then show ?thesis using blocksAfter_frame(1) [OF 3 assms(2)] by simp
  qed
qed

lemma getVolumeOptions_Some:
  assumes "fst (getVolumeOptions X volumeID volOptions) = (Some vol, err)"
  obtains m where "foldl andThen (Inr (volOptions, newVolume))
      (blocksBefore X @ [opt_migratable X volumeID] @ blocksAfter X) = Inr (m, vol)"
    and "err = None"
  using assms by (auto simp: getVolumeOptions_def split: sum.splits prod.splits)

lemma staleReplicaTimeout_filled:
  assumes "foldl andThen (Inr (volOptions, newVolume))
             [opt_staleReplicaTimeout X, fill_staleReplicaTimeout] = Inr st"
    and "volOptions ''staleReplicaTimeout'' = None \<or>
         (\<exists>s n. volOptions ''staleReplicaTimeout'' = Some s \<and>
                strconv_Atoi (Quote X) s = (n, None) \<and> n \<le> 0)"
  shows "StaleReplicaTimeout (snd st) = 2880"
  using assms
  by (auto simp: andThen_simps opt_staleReplicaTimeout_def fill_staleReplicaTimeout_def
      ifPresent_def newVolume_def defaultStaleReplicaTimeout_def split: if_splits)

lemma after_disableRevisionCounter_frame:
  assumes "b \<in> set [opt_unmapMarkSnapChainRemoved X,
      opt_replicaSoftAntiAffinity X, opt_replicaZoneSoftAntiAffinity X,
      opt_replicaDiskSoftAntiAffinity X, opt_fromBackup, opt_backupTargetName,
      opt_dataSource, opt_backingImage X, opt_recurringJobSelector X, opt_diskSelector,
      opt_nodeSelector, opt_dataEngine, opt_frontend, opt_freezeFilesystemForSnapshot X]"
    and "b st = Inr st'"
  shows "RevisionCounterDisabled (snd st') = RevisionCounterDisabled (snd st)"
  using assms
  by (auto simp: block_defs ifPresent_def Let_def split: option.splits prod.splits if_splits)

lemma after_dataEngine_frame:
  assumes "b \<in> set [opt_frontend, opt_freezeFilesystemForSnapshot X]"
    and "b st = Inr st'"
  shows "DataEngine (snd st') = DataEngine (snd st)"
  using assms
  by (auto simp: block_defs ifPresent_def Let_def split: option.splits prod.splits if_splits)

lemma opt_disableRevisionCounter_absent:
  assumes "opt_disableRevisionCounter X st = Inr st'" "fst st ''disableRevisionCounter'' = None"
  shows "RevisionCounterDisabled (snd st')"
  using assms
  by (auto simp: opt_disableRevisionCounter_def
      defaultStorageClassDisableRevisionCounterParameter_def)

lemma opt_dataEngine_absent:
  assumes "opt_dataEngine st = Inr st'" "fst st ''dataEngine'' = None"
  shows "DataEngine (snd st') = ''v1''"
  using assms by (auto simp: opt_dataEngine_def ifPresent_def DataEngineTypeV1_def)

lemma after_share_preserve:
  "\<forall>b\<in>set ([opt_share X, opt_migratable X volumeID] @ blocksAfter X). \<forall>s s'.
     StaleReplicaTimeout (snd s) = c \<longrightarrow> b s = Inr s' \<longrightarrow> StaleReplicaTimeout (snd s') = c"
proof (intro ballI allI impI)
  fix b s s'
  assume b: "b \<in> set ([opt_share X, opt_migratable X volumeID] @ blocksAfter X)"
    and c: "StaleReplicaTimeout (snd s) = c" and run: "b s = Inr s'"
  from b have "b = opt_share X \<or> b = opt_migratable X volumeID \<or> b \<in> set (blocksAfter X)"
    by simp
  then consider "b = opt_share X" | "b = opt_migratable X volumeID"
    | "b \<in> set (blocksAfter X)"
    by blast
  then show "StaleReplicaTimeout (snd s') = c"
  proof cases
    case 1
    have "StaleReplicaTimeout (snd s') = StaleReplicaTimeout (snd s)"
      using run unfolding 1 by (rule opt_share_frame)
    then show ?thesis using c by simp
  next
    case 2
    have "StaleReplicaTimeout (snd s') = StaleReplicaTimeout (snd s)"
      using run unfolding 2 by (rule opt_migratable_frame(2))
    then show ?thesis using c by simp
  next
    case 3
    have "StaleReplicaTimeout (snd s') = StaleReplicaTimeout (snd s)"
      using 3 run by (rule blocksAfter_frame(3))
    then show ?thesis using c by simp
  qed
qed

subsection \<open>Failing values\<close>

text \<open>
  C4. The claim: a recognized key whose value fails parsing or validation makes
  \<open>getVolumeOptions\<close> return a non-nil error naming the field, and no descriptor. For a
  negative \<open>numberOfReplicas\<close> the source takes the error branch of line 148 with
  \<open>err = nil\<close>, and \<open>errors.Wrap(nil, ...)\<close> is nil: the call returns neither a descriptor
  nor an error. The options map is left as it was.
\<close>

theorem getVolumeOptions_negative_numberOfReplicas:
  "getVolumeOptions X volumeID [''numberOfReplicas'' \<mapsto> ''-1''] =
     ((None, None), [''numberOfReplicas'' \<mapsto> ''-1''])"
  by (simp add: run_defs block_defs strconv_Atoi_def isDigit_def errors_Wrap_def)

subsection \<open>Defaults\<close>

text \<open>
  C5. Whenever \<open>getVolumeOptions\<close> returns a descriptor: its stale-replica timeout is
  2880 if the key \<open>staleReplicaTimeout\<close> is absent or parses to an integer that is not
  positive; its revision counter is disabled if the key \<open>disableRevisionCounter\<close> is
  absent; its data engine is "v1" if the key \<open>dataEngine\<close> is absent.
\<close>

theorem getVolumeOptions_defaults:
  assumes "fst (getVolumeOptions X volumeID volOptions) = (Some vol, err)"
  shows "((volOptions ''staleReplicaTimeout'' = None \<or>
           (\<exists>s n. volOptions ''staleReplicaTimeout'' = Some s \<and>
                  strconv_Atoi (Quote X) s = (n, None) \<and> n \<le> 0)) \<longrightarrow>
            StaleReplicaTimeout vol = 2880) \<and>
         (volOptions ''disableRevisionCounter'' = None \<longrightarrow> RevisionCounterDisabled vol = True) \<and>
         (volOptions ''dataEngine'' = None \<longrightarrow> DataEngine vol = ''v1'')"
proof -
  let ?init = "Inr (volOptions, newVolume) :: flow"
  let ?all = "blocksBefore X @ [opt_migratable X volumeID] @ blocksAfter X"
  from assms obtain m where run: "foldl andThen ?init ?all = Inr (m, vol)"
    by (rule getVolumeOptions_Some)
  have stale: "StaleReplicaTimeout vol = 2880"
    if absent: "volOptions ''staleReplicaTimeout'' = None \<or>
           (\<exists>s n. volOptions ''staleReplicaTimeout'' = Some s \<and>
                  strconv_Atoi (Quote X) s = (n, None) \<and> n \<le> 0)"
  proof -
    let ?rest = "[opt_share X, opt_migratable X volumeID] @ blocksAfter X"
    have split: "?all = [opt_staleReplicaTimeout X, fill_staleReplicaTimeout] @ ?rest"
      by (simp add: blocksBefore_def)
    obtain st where
      first: "foldl andThen ?init [opt_staleReplicaTimeout X, fill_staleReplicaTimeout] = Inr st"
      and rest: "foldl andThen (Inr st) ?rest = Inr (m, vol)"
      by (rule foldl_andThen_split [OF run split])
    have start: "StaleReplicaTimeout (snd st) = 2880"
      using first absent by (rule staleReplicaTimeout_filled)
    have keep: "\<forall>b\<in>set ?rest. \<forall>s s'. StaleReplicaTimeout (snd s) = 2880 \<longrightarrow> b s = Inr s' \<longrightarrow>
        StaleReplicaTimeout (snd s') = 2880"
      by (rule after_share_preserve)
    have "StaleReplicaTimeout (snd (m, vol)) = 2880"
      using rest start keep
      by (rule foldl_andThen_invariant [where I = "\<lambda>s. StaleReplicaTimeout (snd s) = 2880"])
    then show ?thesis by simp
  qed
  have agree: "fst st k = volOptions k"
    if "foldl andThen ?init bs = Inr st" "set bs \<subseteq> set ?all" "k \<noteq> ''migratable''" for bs st k
  proof -
    have keep: "\<forall>b\<in>set bs. \<forall>s s'. fst s k = volOptions k \<longrightarrow> b s = Inr s' \<longrightarrow> fst s' k = volOptions k"
    proof (intro ballI allI impI)
      fix b s s'
      assume "b \<in> set bs" and "fst s k = volOptions k" and "b s = Inr s'"
      then show "fst s' k = volOptions k"
        using all_blocks_map [of b X volumeID s s' k] that(2,3) by auto
    qed
    have start: "fst (volOptions, newVolume) k = volOptions k"
      by simp
    show ?thesis
      using that(1) start keep
      by (rule foldl_andThen_invariant [where I = "\<lambda>s. fst s k = volOptions k"])
  qed
  have counter: "RevisionCounterDisabled vol"
    if absent: "volOptions ''disableRevisionCounter'' = None"
  proof -
    let ?pre = "blocksBefore X @ [opt_migratable X volumeID] @
        [opt_encrypted X, opt_numberOfReplicas X, opt_replicaAutoBalance X, opt_dataLocality X]"
    let ?post = "[opt_unmapMarkSnapChainRemoved X,
      opt_replicaSoftAntiAffinity X, opt_replicaZoneSoftAntiAffinity X,
      opt_replicaDiskSoftAntiAffinity X, opt_fromBackup, opt_backupTargetName,
      opt_dataSource, opt_backingImage X, opt_recurringJobSelector X, opt_diskSelector,
      opt_nodeSelector, opt_dataEngine, opt_frontend, opt_freezeFilesystemForSnapshot X]"
    have split: "?all = ?pre @ (opt_disableRevisionCounter X # ?post)"
      by (simp add: blocksAfter_def)
    obtain st where
      pre: "foldl andThen ?init ?pre = Inr st"
      and rest: "foldl andThen (Inr st) (opt_disableRevisionCounter X # ?post) = Inr (m, vol)"
      by (rule foldl_andThen_split [OF run split])
    from rest obtain s1 where
      here: "opt_disableRevisionCounter X st = Inr s1"
      and post: "foldl andThen (Inr s1) ?post = Inr (m, vol)"
      by (rule foldl_andThen_Cons_Inr)
    have "set ?pre \<subseteq> set ?all" unfolding split by (rule set_mono_prefix) simp
    then have "fst st ''disableRevisionCounter'' = None"
      using agree [OF pre, of "''disableRevisionCounter''"] absent by simp
    with here have start: "RevisionCounterDisabled (snd s1)"
      by (rule opt_disableRevisionCounter_absent)
    have keep: "\<forall>b\<in>set ?post. \<forall>s s'. RevisionCounterDisabled (snd s) \<longrightarrow> b s = Inr s' \<longrightarrow>
        RevisionCounterDisabled (snd s')"
    proof (intro ballI allI impI)
      fix b s s'
      assume "b \<in> set ?post" and "RevisionCounterDisabled (snd s)" and "b s = Inr s'"
      then show "RevisionCounterDisabled (snd s')"
        using after_disableRevisionCounter_frame [of b X s s'] by simp
    qed
    have "RevisionCounterDisabled (snd (m, vol))"
      using post start keep
      by (rule foldl_andThen_invariant [where I = "\<lambda>s. RevisionCounterDisabled (snd s)"])
    then show ?thesis by simp
  qed
  have engine: "DataEngine vol = ''v1''"
    if absent: "volOptions ''dataEngine'' = None"
  proof -
    let ?pre = "blocksBefore X @ [opt_migratable X volumeID] @
        [opt_encrypted X, opt_numberOfReplicas X, opt_replicaAutoBalance X, opt_dataLocality X,
      opt_disableRevisionCounter X, opt_unmapMarkSnapChainRemoved X,
      opt_replicaSoftAntiAffinity X, opt_replicaZoneSoftAntiAffinity X,
      opt_replicaDiskSoftAntiAffinity X, opt_fromBackup, opt_backupTargetName,
      opt_dataSource, opt_backingImage X, opt_recurringJobSelector X, opt_diskSelector,
      opt_nodeSelector]"
    let ?post = "[opt_frontend, opt_freezeFilesystemForSnapshot X]"
    have split: "?all = ?pre @ (opt_dataEngine # ?post)"
      by (simp add: blocksAfter_def)
    obtain st where
      pre: "foldl andThen ?init ?pre = Inr st"
      and rest: "foldl andThen (Inr st) (opt_dataEngine # ?post) = Inr (m, vol)"
      by (rule foldl_andThen_split [OF run split])
    from rest obtain s1 where
      here: "opt_dataEngine st = Inr s1"
      and post: "foldl andThen (Inr s1) ?post = Inr (m, vol)"
      by (rule foldl_andThen_Cons_Inr)
    have "set ?pre \<subseteq> set ?all" unfolding split by (rule set_mono_prefix) simp
    then have "fst st ''dataEngine'' = None"
      using agree [OF pre, of "''dataEngine''"] absent by simp
    with here have start: "DataEngine (snd s1) = ''v1''"
      by (rule opt_dataEngine_absent)
    have keep: "\<forall>b\<in>set ?post. \<forall>s s'. DataEngine (snd s) = ''v1'' \<longrightarrow> b s = Inr s' \<longrightarrow>
        DataEngine (snd s') = ''v1''"
    proof (intro ballI allI impI)
      fix b s s'
      assume "b \<in> set ?post" and "DataEngine (snd s) = ''v1''" and "b s = Inr s'"
      then show "DataEngine (snd s') = ''v1''"
        using after_dataEngine_frame [of b X s s'] by simp
    qed
    have "DataEngine (snd (m, vol)) = ''v1''"
      using post start keep
      by (rule foldl_andThen_invariant [where I = "\<lambda>s. DataEngine (snd s) = ''v1''"])
    then show ?thesis by simp
  qed
  show ?thesis using stale counter engine by blast
qed

text \<open>
  The options \<open>{"staleReplicaTimeout": "0"}\<close>: a descriptor is returned, and it has the
  three defaults.
\<close>

theorem getVolumeOptions_defaults_witness:
  "\<exists>vol. fst (getVolumeOptions exampleExternal ''pvc-1'' [''staleReplicaTimeout'' \<mapsto> ''0''])
       = (Some vol, None) \<and>
     strconv_Atoi (Quote exampleExternal) ''0'' = (0, None) \<and>
     StaleReplicaTimeout vol = 2880 \<and> RevisionCounterDisabled vol \<and> DataEngine vol = ''v1''"
proof -
  obtain vol where run:
    "fst (getVolumeOptions exampleExternal ''pvc-1'' [''staleReplicaTimeout'' \<mapsto> ''0''])
       = (Some vol, None)"
    by (simp add: run_defs block_defs strconv_Atoi_def isDigit_def exampleExternal_def)
  have parse: "strconv_Atoi (Quote exampleExternal) ''0'' = (0, None)"
    by (simp add: strconv_Atoi_def isDigit_def)
  show ?thesis
    using getVolumeOptions_defaults [OF run] parse run by auto
qed

subsection \<open>The migratable downgrade\<close>

lemma sameOutcome_Inr:
  "sameOutcome (Inr st) (Inr st') \<longleftrightarrow>
     snd st = snd st' \<and> (\<forall>k. k = ''migratable'' \<or> fst st k = fst st' k)"
  by (simp add: sameOutcome_def)

lemma sameOutcome_key:
  assumes "sameOutcome (Inr st) (Inr st')" and "k \<noteq> ''migratable''"
  shows "fst st k = fst st' k"
  using assms by (auto simp: sameOutcome_Inr)

lemma sameOutcome_Inl: "sameOutcome (Inl (e, a)) (Inl (e, a'))"
  by (simp add: sameOutcome_def)

lemma ifPresent_same:
  assumes "key \<noteq> ''migratable''" and "sameOutcome (Inr st) (Inr st')"
  shows "sameOutcome (ifPresent key body st) (ifPresent key body st')"
proof -
  have "fst st key = fst st' key" and "snd st = snd st'"
    using assms by (auto simp: sameOutcome_Inr)
  then show ?thesis
    using assms(2)
    by (auto simp: ifPresent_def sameOutcome_def split: option.splits sum.splits)
qed

lemma andThen_same:
  assumes "sameOutcome r r'"
    and "\<And>st st'. sameOutcome (Inr st) (Inr st') \<Longrightarrow> sameOutcome (b st) (b st')"
  shows "sameOutcome (andThen r b) (andThen r' b)"
proof (cases r)
  case (Inl ret)
  then obtain ret' where "r' = Inl ret'" "fst ret = fst ret'"
    using assms(1) by (cases r') (simp_all add: sameOutcome_def)
  with Inl show ?thesis by (simp add: andThen_simps sameOutcome_def)
next
  case (Inr st)
  then obtain st' where r': "r' = Inr st'"
    using assms(1) by (cases r') (simp_all add: sameOutcome_def)
  have "sameOutcome (b st) (b st')"
    using assms(1) unfolding Inr r' by (rule assms(2))
  then show ?thesis by (simp add: Inr r' andThen_simps)
qed

lemma foldl_andThen_same:
  assumes "sameOutcome r r'"
    and "\<forall>b\<in>set bs. \<forall>st st'. sameOutcome (Inr st) (Inr st') \<longrightarrow> sameOutcome (b st) (b st')"
  shows "sameOutcome (foldl andThen r bs) (foldl andThen r' bs)"
  using assms
proof (induction bs arbitrary: r r')
  case Nil
  then show ?case by simp
next
  case (Cons b bs)
  have step: "sameOutcome (andThen r b) (andThen r' b)"
  proof (rule andThen_same [OF Cons.prems(1)])
    fix st st'
    assume "sameOutcome (Inr st) (Inr st')"
    then show "sameOutcome (b st) (b st')"
      using Cons.prems(2) [rule_format, of b st st'] by simp
  qed
  have rest: "\<forall>b\<in>set bs. \<forall>st st'. sameOutcome (Inr st) (Inr st') \<longrightarrow>
      sameOutcome (b st) (b st')"
    using Cons.prems(2) by (meson list.set_intros(2))
  show ?case
    using Cons.IH [OF step rest] by simp
qed

lemma fill_same:
  assumes "sameOutcome (Inr st) (Inr st')"
  shows "sameOutcome (fill_staleReplicaTimeout st) (fill_staleReplicaTimeout st')"
  using assms by (auto simp: fill_staleReplicaTimeout_def sameOutcome_def)

lemma opt_disableRevisionCounter_same:
  assumes "sameOutcome (Inr st) (Inr st')"
  shows "sameOutcome (opt_disableRevisionCounter X st) (opt_disableRevisionCounter X st')"
proof -
  have "fst st ''disableRevisionCounter'' = fst st' ''disableRevisionCounter''"
    using assms by (rule sameOutcome_key) simp
  moreover have "snd st = snd st'"
    using assms by (simp add: sameOutcome_Inr)
  ultimately show ?thesis
    using assms
    by (auto simp: opt_disableRevisionCounter_def sameOutcome_def
        split: option.splits prod.splits)
qed

lemma opt_dataEngine_same:
  assumes "sameOutcome (Inr st) (Inr st')"
  shows "sameOutcome (opt_dataEngine st) (opt_dataEngine st')"
  unfolding opt_dataEngine_def
  using assms by (intro ifPresent_same) (simp_all add: sameOutcome_Inr)

lemma blocks_same:
  assumes "b \<in> set (blocksBefore X) \<union> set (blocksAfter X)"
    and "BackingImageParameterName X \<noteq> ''migratable''"
    and "sameOutcome (Inr st) (Inr st')"
  shows "sameOutcome (b st) (b st')"
proof -
  have keyed: "sameOutcome (ifPresent key body st) (ifPresent key body st')"
    if "key \<noteq> ''migratable''" for key body
    using that assms(3) by (rule ifPresent_same)
  show ?thesis
    using assms(1,2) fill_same [OF assms(3)] opt_disableRevisionCounter_same [OF assms(3)]
      opt_dataEngine_same [OF assms(3)]
    by (auto simp: blocksBefore_def blocksAfter_def opt_staleReplicaTimeout_def opt_share_def
        opt_encrypted_def opt_numberOfReplicas_def opt_replicaAutoBalance_def
        opt_dataLocality_def opt_unmapMarkSnapChainRemoved_def
        opt_replicaSoftAntiAffinity_def opt_replicaZoneSoftAntiAffinity_def
        opt_replicaDiskSoftAntiAffinity_def opt_fromBackup_def opt_backupTargetName_def
        opt_dataSource_def opt_backingImage_def opt_recurringJobSelector_def
        opt_diskSelector_def opt_nodeSelector_def opt_frontend_def
        opt_freezeFilesystemForSnapshot_def intro!: keyed)
qed


lemma blocksBefore_not_shared:
  assumes "foldl andThen (Inr (m, newVolume)) (blocksBefore X) = Inr st"
    and "\<forall>share. m ''share'' = Some share \<longrightarrow> strconv_ParseBool (Quote X) share \<noteq> (True, None)"
    and "AccessModeReadWriteMany X \<noteq> []"
    and "AccessModeReadWriteOnce X \<noteq> AccessModeReadWriteMany X"
  shows "fst st = m" and "\<not> Migratable (snd st)"
    and "AccessMode (snd st) \<noteq> AccessModeReadWriteMany X"
proof -
  obtain s1 where s1: "opt_staleReplicaTimeout X (m, newVolume) = Inr s1"
    and r1: "foldl andThen (Inr s1) [fill_staleReplicaTimeout, opt_share X] = Inr st"
    using assms(1) unfolding blocksBefore_def by (rule foldl_andThen_Cons_Inr)
  obtain s2 where s2: "fill_staleReplicaTimeout s1 = Inr s2"
    and r2: "foldl andThen (Inr s2) [opt_share X] = Inr st"
    using r1 by (rule foldl_andThen_Cons_Inr)
  have s3: "opt_share X s2 = Inr st"
    using r2 by (simp add: andThen_simps)
  have a1: "fst s1 = m \<and> Migratable (snd s1) = False \<and> AccessMode (snd s1) = []"
    using s1
    by (auto simp: opt_staleReplicaTimeout_def ifPresent_def newVolume_def
        split: option.splits prod.splits if_splits)
  have a2: "fst s2 = m \<and> Migratable (snd s2) = False \<and> AccessMode (snd s2) = []"
    using s2 a1 by (auto simp: fill_staleReplicaTimeout_def split: if_splits)
  show "fst st = m" and "\<not> Migratable (snd st)"
    and "AccessMode (snd st) \<noteq> AccessModeReadWriteMany X"
    using s3 a2 assms(2,3,4)
    by (auto simp: opt_share_def ifPresent_def split: option.splits prod.splits if_splits)
qed

lemma getVolumeOptions_same:
  assumes "sameOutcome
      (foldl andThen (Inr (m, newVolume))
         (blocksBefore X @ [opt_migratable X volumeID] @ blocksAfter X))
      (foldl andThen (Inr (m', newVolume))
         (blocksBefore X @ [opt_migratable X volumeID] @ blocksAfter X))"
  shows "fst (getVolumeOptions X volumeID m) = fst (getVolumeOptions X volumeID m')"
  using assms
  by (auto simp: getVolumeOptions_def sameOutcome_def split: sum.splits prod.splits)

text \<open>
  The claim C2 as stated, a descriptor and no error for every options map in which
  \<open>migratable\<close> parses to true and the access mode is not ReadWriteMany, fails where
  another key is invalid: with \<open>encrypted\<close> set to "yes" the call returns the error of
  that key and no descriptor.
\<close>

theorem getVolumeOptions_migratable_other_key_fails: "fst (getVolumeOptions exampleExternal ''pvc-1''
        [''migratable'' \<mapsto> ''true'', ''encrypted'' \<mapsto> ''yes'']) =
     (None, Some (WithMessage (syntaxError exampleQuote ''ParseBool'' ''yes'')
                    ''invalid parameter encrypted''))"
  by (simp add: run_defs block_defs strconv_ParseBool_def errors_Wrap_def exampleExternal_def
      strconv_FormatBool_def)

text \<open>
  C2, amended. Let \<open>migratable\<close> parse to true and \<open>share\<close> be absent or not parse
  to true, so that the access mode is not ReadWriteMany. Then \<open>getVolumeOptions\<close>
  returns the descriptor and the error it returns on the same options without the key
  \<open>migratable\<close>: the key is never the cause of an error. Every descriptor returned has
  \<open>Migratable\<close> false, and comes with no error. The access mode constants and the
  backing image parameter name are parameters: ReadWriteMany is not the empty string,
  differs from ReadWriteOnce, and the backing image key is not \<open>migratable\<close>.
\<close>

theorem getVolumeOptions_migratable_downgrade:
  assumes mig: "volOptions ''migratable'' = Some migratable"
    and true: "strconv_ParseBool (Quote X) migratable = (True, None)"
    and share: "\<forall>share. volOptions ''share'' = Some share \<longrightarrow>
                  strconv_ParseBool (Quote X) share \<noteq> (True, None)"
    and rwx: "AccessModeReadWriteMany X \<noteq> []"
    and rwo: "AccessModeReadWriteOnce X \<noteq> AccessModeReadWriteMany X"
    and name: "BackingImageParameterName X \<noteq> ''migratable''"
  shows "fst (getVolumeOptions X volumeID volOptions) =
           fst (getVolumeOptions X volumeID (volOptions(''migratable'' := None))) \<and>
         (\<forall>vol err. fst (getVolumeOptions X volumeID volOptions) = (Some vol, err) \<longrightarrow>
            \<not> Migratable vol \<and> err = None)"
proof -
  let ?m' = "volOptions(''migratable'' := None)"
  let ?mig = "opt_migratable X volumeID"
  let ?r = "foldl andThen (Inr (volOptions, newVolume)) (blocksBefore X)"
  let ?r' = "foldl andThen (Inr (?m', newVolume)) (blocksBefore X)"
  have share': "\<forall>share. ?m' ''share'' = Some share \<longrightarrow>
                  strconv_ParseBool (Quote X) share \<noteq> (True, None)"
    using share by simp
  have init: "sameOutcome (Inr (volOptions, newVolume)) (Inr (?m', newVolume))"
    by (simp add: sameOutcome_Inr)
  have indep_before: "\<forall>b\<in>set (blocksBefore X). \<forall>st st'.
      sameOutcome (Inr st) (Inr st') \<longrightarrow> sameOutcome (b st) (b st')"
    using blocks_same [OF _ name] by blast
  have indep_after: "\<forall>b\<in>set (blocksAfter X). \<forall>st st'.
      sameOutcome (Inr st) (Inr st') \<longrightarrow> sameOutcome (b st) (b st')"
    using blocks_same [OF _ name] by blast
  have before: "sameOutcome ?r ?r'"
    using init indep_before by (rule foldl_andThen_same)
  have mid: "sameOutcome (andThen ?r ?mig) (andThen ?r' ?mig)"
  proof (cases ?r)
    case (Inl ret)
    then obtain ret' where "?r' = Inl ret'" "fst ret = fst ret'"
      using before by (cases ?r') (simp_all add: sameOutcome_def)
    with Inl show ?thesis by (simp add: andThen_simps sameOutcome_def)
  next
    case (Inr st)
    then obtain st' where r': "?r' = Inr st'"
      using before by (cases ?r') (simp_all add: sameOutcome_def)
    have vol: "snd st = snd st'"
      using before by (simp add: Inr r' sameOutcome_Inr)
    note st = blocksBefore_not_shared [OF Inr share rwx rwo]
    note st' = blocksBefore_not_shared [OF r' share' rwx rwo]
    have here: "?mig st = Inr (volOptions(''migratable'' \<mapsto> strconv_FormatBool False), snd st)"
      using st mig true by (simp add: opt_migratable_def)
    have there: "?mig st' = Inr st'"
      using st'(1) by (simp add: opt_migratable_def)
    show ?thesis
      using vol st'(1) by (simp add: Inr r' andThen_simps here there sameOutcome_Inr)
  qed
  have "sameOutcome (foldl andThen (andThen ?r ?mig) (blocksAfter X))
      (foldl andThen (andThen ?r' ?mig) (blocksAfter X))"
    using mid indep_after by (rule foldl_andThen_same)
  then have same: "fst (getVolumeOptions X volumeID volOptions) =
      fst (getVolumeOptions X volumeID ?m')"
    by (intro getVolumeOptions_same) simp
  have downgraded: "\<not> Migratable vol \<and> err = None"
    if "fst (getVolumeOptions X volumeID volOptions) = (Some vol, err)" for vol err
  proof -
    have "fst (getVolumeOptions X volumeID ?m') = (Some vol, err)"
      using that same by simp
    then obtain a where run: "foldl andThen (Inr (?m', newVolume))
        (blocksBefore X @ [?mig] @ blocksAfter X) = Inr (a, vol)" and err: "err = None"
      by (rule getVolumeOptions_Some)
    have start: "fst (?m', newVolume) ''migratable'' = None \<and> \<not> Migratable (snd (?m', newVolume))"
      by (simp add: newVolume_def)
    have keep: "\<forall>b\<in>set (blocksBefore X @ [?mig] @ blocksAfter X). \<forall>s s'.
        fst s ''migratable'' = None \<and> \<not> Migratable (snd s) \<longrightarrow> b s = Inr s' \<longrightarrow>
        fst s' ''migratable'' = None \<and> \<not> Migratable (snd s')"
    proof (intro ballI allI impI)
      fix b s s'
      assume b: "b \<in> set (blocksBefore X @ [?mig] @ blocksAfter X)"
        and s: "fst s ''migratable'' = None \<and> \<not> Migratable (snd s)" and step: "b s = Inr s'"
      from b have "b \<in> set (blocksBefore X) \<or> b = ?mig \<or> b \<in> set (blocksAfter X)"
        by auto
      then consider "b \<in> set (blocksBefore X)" | "b = ?mig" | "b \<in> set (blocksAfter X)"
        by blast
      then show "fst s' ''migratable'' = None \<and> \<not> Migratable (snd s')"
      proof cases
        case 1
        then show ?thesis using blocksBefore_frame [OF 1 step] s by simp
      next
        case 2
        have "s' = s"
          by (rule opt_migratable_frame(3) [of X volumeID]) (use step s 2 in simp_all)
        then show ?thesis using s by simp
      next
        case 3
        then show ?thesis using blocksAfter_frame(1,2) [OF 3 step] s by simp
      qed
    qed
    have "fst (a, vol) ''migratable'' = None \<and> \<not> Migratable (snd (a, vol))"
      using run start keep
      by (rule foldl_andThen_invariant
          [where I = "\<lambda>s. fst s ''migratable'' = None \<and> \<not> Migratable (snd s)"])
    then show ?thesis using err by simp
  qed
  show ?thesis using same downgraded by blast
qed

text \<open>
  The options \<open>{"migratable": "true"}\<close> with no \<open>share\<close> key: a descriptor is
  returned, with no error, and it is not migratable.
\<close>

theorem getVolumeOptions_migratable_downgrade_witness:
  "\<exists>vol. fst (getVolumeOptions exampleExternal ''pvc-1'' [''migratable'' \<mapsto> ''true''])
       = (Some vol, None) \<and> \<not> Migratable vol"
proof -
  obtain vol where run:
    "fst (getVolumeOptions exampleExternal ''pvc-1'' [''migratable'' \<mapsto> ''true''])
       = (Some vol, None)"
    by (simp add: run_defs block_defs strconv_ParseBool_def strconv_FormatBool_def
        exampleExternal_def newVolume_def)
  have true: "strconv_ParseBool (Quote exampleExternal) ''true'' = (True, None)"
    by (simp add: strconv_ParseBool_def)
  have params: "AccessModeReadWriteMany exampleExternal \<noteq> []"
    "AccessModeReadWriteOnce exampleExternal \<noteq> AccessModeReadWriteMany exampleExternal"
    "BackingImageParameterName exampleExternal \<noteq> ''migratable''"
    by (simp_all add: exampleExternal_def)
  have "\<not> Migratable vol"
    using getVolumeOptions_migratable_downgrade
      [of "[''migratable'' \<mapsto> ''true'']" "''true''" exampleExternal "''pvc-1''", OF _ true _ params]
      run by simp
  then show ?thesis using run by blast
qed

subsection \<open>Backing image parameters\<close>

lemma map_delete_thrice:
  "map_delete (map_delete (map_delete bi a) b) c = map_option (\<lambda>f. f |` (- {a, b, c})) bi"
  by (cases bi) (auto simp: map_delete_def restrict_map_def fun_eq_iff)

lemma map_index_delete_other: "a \<noteq> b \<Longrightarrow> map_index (map_delete bi a) b = map_index bi b"
  by (cases bi) (simp_all add: map_index_def map_delete_def)

lemma updateVolumeParamsForBackingImage_run:
  assumes "n \<noteq> t" "n \<noteq> c" "t \<noteq> c"
  and "BackingImageParameterName X = n" "BackingImageParameterDataSourceType X = t"
     "BackingImageParameterChecksum X = c"
  shows "updateVolumeParamsForBackingImage X (Some vp) bi =
   Some (vp(n \<mapsto> map_index bi n, t \<mapsto> map_index bi t, c \<mapsto> map_index bi c,
            BackingImageParameterDataSourceParameters X \<mapsto>
              json_Marshal X (map_option (\<lambda>f. f |` (- {n, t, c})) bi)),
         map_option (\<lambda>f. f |` (- {n, t, c})) bi)"
  using assms
  by (simp add: updateVolumeParamsForBackingImage_def liftField_def Let_def
        map_delete_thrice map_index_delete_other)

text \<open>
  C6. For pairwise distinct parameter names and an allocated map of volume parameters,
  \<open>updateVolumeParamsForBackingImage\<close> returns with these two maps. The backing image
  map has lost exactly the three lifted keys. The volume parameters hold, under each
  lifted key, the value the backing image map had for it (the empty string if it had
  none); under the data source parameters key, the JSON text of the backing image map
  that is left, in which no lifted key occurs; and their old value under every other
  key.
\<close>

theorem updateVolumeParamsForBackingImage_split:
  assumes "distinct [BackingImageParameterName X, BackingImageParameterDataSourceType X,
                     BackingImageParameterChecksum X, BackingImageParameterDataSourceParameters X]"
    and "lifted = {BackingImageParameterName X, BackingImageParameterDataSourceType X,
                   BackingImageParameterChecksum X}"
  shows "\<exists>vp' bi'.
      updateVolumeParamsForBackingImage X (Some vp) bi = Some (vp', bi') \<and>
      bi' = map_option (\<lambda>f. f |` (- lifted)) bi \<and>
      (\<forall>k. vp' k =
         (if k \<in> lifted then Some (map_index bi k)
          else if k = BackingImageParameterDataSourceParameters X then Some (json_Marshal X bi')
          else vp k)) \<and>
      (\<forall>f k. bi' = Some f \<longrightarrow> k \<in> lifted \<longrightarrow> f k = None)"
proof -
  obtain n t c p where names: "BackingImageParameterName X = n"
      "BackingImageParameterDataSourceType X = t" "BackingImageParameterChecksum X = c"
      "BackingImageParameterDataSourceParameters X = p"
    by simp
  have ne: "n \<noteq> t" "n \<noteq> c" "t \<noteq> c" "p \<noteq> n" "p \<noteq> t" "p \<noteq> c"
    using assms(1) by (auto simp: names)
  have lifted: "lifted = {n, t, c}"
    by (simp add: assms(2) names)
  let ?bi' = "map_option (\<lambda>f. f |` (- {n, t, c})) bi"
  let ?vp' = "vp(n \<mapsto> map_index bi n, t \<mapsto> map_index bi t, c \<mapsto> map_index bi c,
                 p \<mapsto> json_Marshal X ?bi')"
  have run: "updateVolumeParamsForBackingImage X (Some vp) bi = Some (?vp', ?bi')"
    using updateVolumeParamsForBackingImage_run [OF ne(1-3) names(1-3), of vp bi]
    by (simp add: names)
  have look: "?vp' k =
         (if k \<in> {n, t, c} then Some (map_index bi k)
          else if k = p then Some (json_Marshal X ?bi')
          else vp k)" for k
    using ne by auto
  have none: "f k = None" if "?bi' = Some f" "k \<in> {n, t, c}" for f k
    using that by (cases bi) (auto simp: restrict_map_def)
  show ?thesis
    unfolding lifted names using run look none by blast
qed

text \<open>
  A backing image map with a name, a checksum and a download URL: name and checksum are
  lifted, the data source type is lifted as the empty string, and the URL alone is in
  the JSON text.
\<close>

theorem updateVolumeParamsForBackingImage_split_witness:
  "\<exists>vp' bi'.
     updateVolumeParamsForBackingImage exampleExternal (Some Map.empty)
       (Some [''backingImage'' \<mapsto> ''img1'', ''backingImageChecksum'' \<mapsto> ''abc'',
              ''url'' \<mapsto> ''http://host/img1'']) = Some (vp', bi') \<and>
     vp' ''backingImage'' = Some ''img1'' \<and>
     vp' ''backingImageDataSourceType'' = Some [] \<and>
     vp' ''backingImageChecksum'' = Some ''abc'' \<and>
     vp' ''url'' = None \<and>
     vp' ''backingImageDataSourceParameters'' =
       Some ([CHR ''{'', CHR 0x22] @ ''url'' @ [CHR 0x22, CHR '':'', CHR 0x22] @
             ''http://host/img1'' @ [CHR 0x22, CHR ''}''])"
proof -
  have d: "distinct [BackingImageParameterName exampleExternal,
      BackingImageParameterDataSourceType exampleExternal,
      BackingImageParameterChecksum exampleExternal,
      BackingImageParameterDataSourceParameters exampleExternal]"
    by (simp add: exampleExternal_def)
  show ?thesis
    using updateVolumeParamsForBackingImage_split [OF d refl, of Map.empty
        "Some [''backingImage'' \<mapsto> ''img1'', ''backingImageChecksum'' \<mapsto> ''abc'',
              ''url'' \<mapsto> ''http://host/img1'']"]
    by (auto simp: exampleExternal_def exampleMarshal_def exampleQuote_def map_index_def
          restrict_map_def)
qed

subsection \<open>Shared access\<close>

text \<open>
  C7. The claim, and the comment above \<open>requiresSharedAccess\<close>: a volume in access mode
  ReadWriteMany requires shared access for every requested capability. The source
  guards \<open>vol\<close> and \<open>cap\<close> against nil but reads \<open>cap.AccessMode.Mode\<close> (line 459) before
  it returns: with no capability the call returns \<open>true\<close> for the shared volume, and
  with a capability that has no access mode it panics, although \<open>isSharedVolume\<close> is
  already known to be true.
\<close>

theorem requiresSharedAccess_nil_access_mode:
  "requiresSharedAccess exampleExternal
     (Some (newVolume\<lparr>AccessMode := AccessModeReadWriteMany exampleExternal\<rparr>))
     None = Some True \<and>
   requiresSharedAccess exampleExternal
     (Some (newVolume\<lparr>AccessMode := AccessModeReadWriteMany exampleExternal\<rparr>))
     (Some \<lparr>AccessMode_ptr = None\<rparr>) = None"
  by (simp add: requiresSharedAccess_def)

text \<open>
  On every other input the function does what its comment says. For a capability that is
  nil or has an access mode, \<open>requiresSharedAccess\<close> returns \<open>true\<close> whenever the volume
  is in access mode ReadWriteMany or migratable, and whenever the capability asks for
  multi-node reader-only, multi-node single-writer or multi-node multi-writer access.
\<close>

theorem requiresSharedAccess_shared:
  assumes "cap = None \<or> (\<exists>c am. cap = Some c \<and> AccessMode_ptr c = Some am)"
  shows "((\<exists>v. vol = Some v \<and> (AccessMode v = AccessModeReadWriteMany X \<or> Migratable v)) \<longrightarrow>
            requiresSharedAccess X vol cap = Some True) \<and>
         (\<forall>c am. cap = Some c \<longrightarrow> AccessMode_ptr c = Some am \<longrightarrow>
            (Mode am = VolumeCapability_AccessMode_MULTI_NODE_READER_ONLY \<or>
             Mode am = VolumeCapability_AccessMode_MULTI_NODE_SINGLE_WRITER \<or>
             Mode am = VolumeCapability_AccessMode_MULTI_NODE_MULTI_WRITER) \<longrightarrow>
            requiresSharedAccess X vol cap = Some True)"
  using assms by (auto simp: requiresSharedAccess_def)

text \<open>
  A ReadWriteMany volume with no capability, a migratable volume asked for single-node
  access, and no volume with a multi-node capability.
\<close>

theorem requiresSharedAccess_shared_witness:
  "requiresSharedAccess exampleExternal (Some (newVolume\<lparr>AccessMode := ''rwx''\<rparr>)) None = Some True \<and>
   requiresSharedAccess exampleExternal (Some (newVolume\<lparr>Migratable := True\<rparr>))
     (Some \<lparr>AccessMode_ptr = Some \<lparr>Mode = VolumeCapability_AccessMode_SINGLE_NODE_WRITER\<rparr>\<rparr>)
     = Some True \<and>
   requiresSharedAccess exampleExternal None
     (Some \<lparr>AccessMode_ptr = Some \<lparr>Mode = VolumeCapability_AccessMode_MULTI_NODE_READER_ONLY\<rparr>\<rparr>)
     = Some True"
  using requiresSharedAccess_shared [of None "Some (newVolume\<lparr>AccessMode := ''rwx''\<rparr>)" exampleExternal]
    requiresSharedAccess_shared [of "Some \<lparr>AccessMode_ptr = Some \<lparr>Mode = VolumeCapability_AccessMode_SINGLE_NODE_WRITER\<rparr>\<rparr>"
       "Some (newVolume\<lparr>Migratable := True\<rparr>)" exampleExternal]
    requiresSharedAccess_shared [of "Some \<lparr>AccessMode_ptr = Some \<lparr>Mode = VolumeCapability_AccessMode_MULTI_NODE_READER_ONLY\<rparr>\<rparr>"
       None exampleExternal]
  by (simp add: exampleExternal_def)

section \<open>Properties of the mount lifecycle engine\<close>

subsection \<open>ensureMountPoint\<close>

text \<open>
  C1. The claim: when the forced unmount of a corrupt mount point fails, the error
  returned embeds the corruption evidence and the unmount failure. Here the mount table
  reports a healthy mount, the probe fails to open the directory with an I/O error, and
  the unmount reports a busy target. The error returned prints the error of the mount
  table check, which is nil, where the evidence should stand: the text of the probe's
  error is not part of it.
\<close>

theorem ensureMountPoint_probe_evidence_lost:
  "syncMountPointDirectory (stubOs (Some EIO) None (Inl (Errno ENOENT)) (Inl (Errno ENOENT)))
       ''/mnt/vol'' []
     = (Some (PathError ''open'' ''/mnt/vol'' (Errno EIO)), []) \<and>
   fst (ensureMountPoint (stubOs (Some EIO) None (Inl (Errno ENOENT)) (Inl (Errno ENOENT)))
          ''/mnt/vol''
          (stubMounter (True, None) (Some (ErrorString ''umount: /mnt/vol: target is busy.'')))
          [])
     = (False, Some (ErrorString
          (''failed to unmount corrupt mount point /mnt/vol umount error: '' @
           ''umount: /mnt/vol: target is busy. eval error: <nil>''))) \<and>
   \<not> strings_Contains
         (''failed to unmount corrupt mount point /mnt/vol umount error: '' @
          ''umount: /mnt/vol: target is busy. eval error: <nil>'')
         (Error (PathError ''open'' ''/mnt/vol'' (Errno EIO)))"
  by (simp add: ensureMountPoint_def stubOs_def stubMounter_def os_IsNotExist_def
      mount_IsCorruptedMnt_def syncMountPointDirectory_def unmount_def
      unmountCorruptError_def fmt_v_def)

text \<open>
  The claim C3 as stated, no error for every path that does not exist, fails where the
  directory cannot be created: on a read-only file system the error of \<open>os.MkdirAll\<close>
  is returned.
\<close>

theorem ensureMountPoint_absent_path_mkdir_fails: "fst (ensureMountPoint (stubOs None (Some EROFS) (Inl (Errno ENOENT)) (Inl (Errno ENOENT)))
     ''/mnt/vol'' (stubMounter (False, Some (PathError ''stat'' ''/mnt/vol'' (Errno ENOENT))) None) [])
   = (False, Some (PathError ''mkdir'' ''/mnt/vol'' (Errno EROFS)))"
  by (simp add: ensureMountPoint_def stubOs_def stubMounter_def os_IsNotExist_def)

text \<open>
  C3, amended. When \<open>IsMountPoint\<close> reports that the path does not exist,
  \<open>ensureMountPoint\<close> calls \<open>os.MkdirAll\<close> on the path with mode 0750, which gives no
  access to others, and returns \<open>false\<close> with the error of that call: nil when the
  directories were created. It never reports a mount for such a path.
\<close>

theorem ensureMountPoint_absent_path:
  assumes "IsMountPoint mounter path s0 = ((isMnt, err), s1)"
    and "os_IsNotExist err"
    and "MkdirAll sys path perm_0750 s1 = (mkErr, s2)"
  shows "ensureMountPoint sys path mounter s0 = ((False, mkErr), s2) \<and> perm_0750 mod 8 = 0"
  using assms by (simp add: ensureMountPoint_def perm_0750_def)

text \<open>
  A path that does not exist on a node where the directory can be created.
\<close>

theorem ensureMountPoint_absent_path_witness:
  "ensureMountPoint (stubOs None None (Inl (Errno ENOENT)) (Inl (Errno ENOENT))) ''/mnt/vol''
     (stubMounter (False, Some (PathError ''stat'' ''/mnt/vol'' (Errno ENOENT))) None) []
   = ((False, None), [])"
proof -
  let ?m = "stubMounter (False, Some (PathError ''stat'' ''/mnt/vol'' (Errno ENOENT))) None"
  let ?sys = "stubOs None None (Inl (Errno ENOENT)) (Inl (Errno ENOENT))"
  have a: "IsMountPoint ?m ''/mnt/vol'' [] =
      ((False, Some (PathError ''stat'' ''/mnt/vol'' (Errno ENOENT))), [])"
    by (simp add: stubMounter_def)
  have b: "os_IsNotExist (Some (PathError ''stat'' ''/mnt/vol'' (Errno ENOENT)))"
    by (simp add: os_IsNotExist_def)
  have c: "MkdirAll ?sys ''/mnt/vol'' perm_0750 [] = (None, [])"
    by (simp add: stubOs_def)
  show ?thesis
    using ensureMountPoint_absent_path [OF a b c] by simp
qed

subsection \<open>ensureDirectory\<close>

text \<open>
  C10. The claim, and the comment above \<open>ensureDirectory\<close>: for a path that exists and is
  a directory the function reports that nothing was created. The source returns
  \<open>true\<close> on that branch (line 348), the value it also returns after creating the
  directory.
\<close>

theorem ensureDirectory_existing_directory:
  "ensureDirectory (stubOs None None (Inr \<lparr>IsDir = True\<rparr>) (Inl (Errno ENOENT)))
       ''/var/lib/longhorn'' []
     = ((True, None), [])"
  by (simp add: ensureDirectory_def stubOs_def errOf_def os_IsNotExist_def)

subsection \<open>unmount\<close>

text \<open>
  C8. Let \<open>backend\<close> be the call \<open>unmount\<close> makes: \<open>UnmountWithForce\<close> with a
  timeout of 30 seconds when the mounter has it, \<open>Unmount\<close> otherwise. When the backend
  returns nil, or an error whose text contains "not mounted" or "no mount point
  specified", \<open>unmount\<close> returns nil; any other error is returned as it is. So two
  calls in a row on a path for which the backend gives such answers, as it does for a
  path that is not mounted, both return nil.
\<close>

theorem unmount_contract:
  fixes mounter :: "'s mounter"
  assumes "backend = (case UnmountWithForce mounter of
                        Some forceUnmount \<Rightarrow> forceUnmount path (30 * Second)
                      | None \<Rightarrow> Unmount mounter path)"
  shows "(backend s0 = (None, s1) \<longrightarrow> unmount path mounter s0 = (None, s1)) \<and>
    (\<forall>e. backend s0 = (Some e, s1) \<longrightarrow>
          (strings_Contains (Error e) ''not mounted'' \<or>
           strings_Contains (Error e) ''no mount point specified'') \<longrightarrow>
          unmount path mounter s0 = (None, s1)) \<and>
    (\<forall>e. backend s0 = (Some e, s1) \<longrightarrow>
          \<not> strings_Contains (Error e) ''not mounted'' \<longrightarrow>
          \<not> strings_Contains (Error e) ''no mount point specified'' \<longrightarrow>
          unmount path mounter s0 = (Some e, s1)) \<and>
    (\<forall>r1 r2 s2. backend s0 = (r1, s1) \<longrightarrow> backend s1 = (r2, s2) \<longrightarrow>
          (\<forall>e. r1 = Some e \<or> r2 = Some e \<longrightarrow>
               strings_Contains (Error e) ''not mounted'' \<or>
               strings_Contains (Error e) ''no mount point specified'') \<longrightarrow>
          unmount path mounter s0 = (None, s1) \<and> unmount path mounter s1 = (None, s2))"
proof -
  have run: "unmount path mounter s =
      (case backend s of
         (err, s') \<Rightarrow>
           (case err of
              None \<Rightarrow> (None, s')
            | Some e \<Rightarrow>
                if strings_Contains (Error e) ''not mounted'' \<or>
                   strings_Contains (Error e) ''no mount point specified''
                then (None, s') else (err, s')))" for s
    unfolding assms unmount_def defaultForceUmountTimeout_def
    by (cases "UnmountWithForce mounter") simp_all
  have swallowed: "unmount path mounter s = (None, s')"
    if "backend s = (r, s')"
      and "\<And>e. r = Some e \<Longrightarrow> strings_Contains (Error e) ''not mounted'' \<or>
               strings_Contains (Error e) ''no mount point specified''" for s r s'
    using that by (cases r) (auto simp: run)
  have other: "unmount path mounter s0 = (Some e, s1)"
    if "backend s0 = (Some e, s1)" "\<not> strings_Contains (Error e) ''not mounted''"
      "\<not> strings_Contains (Error e) ''no mount point specified''" for e
    using that by (simp add: run)
  show ?thesis
    using swallowed other by (intro conjI allI impI) blast+
qed

text \<open>
  On the node whose state is the list of mounted paths: a path that is not mounted
  (the state is unchanged, so a second call is the same call), with a plain and with a
  forcing mounter; a mounted path; and a backend that fails with \<open>EBUSY\<close>.
\<close>

theorem unmount_contract_witness:
  "unmount ''/mnt/vol'' (tableMounter False) [] = (None, []) \<and>
   unmount ''/mnt/vol'' (tableMounter True) [''/mnt/vol''] = (None, []) \<and>
   unmount ''/mnt/vol'' (tableMounter True) [] = (None, []) \<and>
   unmount ''/mnt/vol'' (stubMounter (True, None) (Some (Errno EBUSY))) [] = (Some (Errno EBUSY), [])"
proof -
  have plain: "Unmount (tableMounter False) ''/mnt/vol'' =
      (case UnmountWithForce (tableMounter False) of
         Some forceUnmount \<Rightarrow> forceUnmount ''/mnt/vol'' (30 * Second)
       | None \<Rightarrow> Unmount (tableMounter False) ''/mnt/vol'')"
    by (simp add: tableMounter_def)
  have forced: "tableUnmount ''/mnt/vol'' =
      (case UnmountWithForce (tableMounter True) of
         Some forceUnmount \<Rightarrow> forceUnmount ''/mnt/vol'' (30 * Second)
       | None \<Rightarrow> Unmount (tableMounter True) ''/mnt/vol'')"
    by (simp add: tableMounter_def)
  have stub: "Unmount (stubMounter (True, None) (Some (Errno EBUSY))) ''/mnt/vol'' =
      (case UnmountWithForce (stubMounter (True, None) (Some (Errno EBUSY))) of
         Some forceUnmount \<Rightarrow> forceUnmount ''/mnt/vol'' (30 * Second)
       | None \<Rightarrow> Unmount (stubMounter (True, None) (Some (Errno EBUSY))) ''/mnt/vol'')"
    by (simp add: stubMounter_def)
  show ?thesis
    using unmount_contract [OF plain, of "[]" "[]"]
      unmount_contract [OF forced, of "[''/mnt/vol'']" "[]"]
      unmount_contract [OF forced, of "[]" "[]"]
      unmount_contract [OF stub, of "[]" "[]"]
    by (simp add: tableMounter_def tableUnmount_def stubMounter_def)
qed

subsection \<open>getFilesystemStatistics\<close>

lemma int64_of_int:
  fixes w :: "64 word"
  shows "w = word_of_int k \<Longrightarrow> sint w = signed_take_bit 63 k"
  by (simp add: sint_sbintrunc')

text \<open>
  C9. For a successful \<open>statfs\<close> the statistics are returned, and read as \<open>int64\<close>:
  \<open>usedBytes\<close> is (total blocks - free blocks) * block size, \<open>availableBytes\<close> is
  available blocks * block size, \<open>totalBytes\<close> is total blocks * block size and
  \<open>usedInodes\<close> is total inodes - free inodes, each wrapped to 64 bits as the Go
  arithmetic does. \<open>usedBytes\<close> differs from \<open>totalBytes - availableBytes\<close> unless
  (available blocks - free blocks) * block size is 0. Where the total size fits an
  \<open>int64\<close>, \<open>usedBytes\<close> is the product itself.
\<close>

theorem getFilesystemStatistics_arithmetic:
  assumes "unix_Statfs sys volumePath s0 = (Inr statfs, s1)"
  shows "\<exists>v. getFilesystemStatistics sys volumePath s0 = (Inr v, s1) \<and>
      sint (usedBytes v) =
        signed_take_bit 63 ((uint (Blocks statfs) - uint (Bfree statfs)) * sint (Bsize statfs)) \<and>
      sint (availableBytes v) = signed_take_bit 63 (uint (Bavail statfs) * sint (Bsize statfs)) \<and>
      sint (totalBytes v) = signed_take_bit 63 (uint (Blocks statfs) * sint (Bsize statfs)) \<and>
      sint (usedInodes v) = signed_take_bit 63 (uint (Files statfs) - uint (Ffree statfs)) \<and>
      (usedBytes v = totalBytes v - availableBytes v \<longleftrightarrow>
         (Bavail statfs - Bfree statfs) * Bsize statfs = 0) \<and>
      (0 \<le> sint (Bsize statfs) \<and> uint (Bfree statfs) \<le> uint (Blocks statfs) \<and>
       uint (Blocks statfs) * sint (Bsize statfs) < 2 ^ 63 \<longrightarrow>
         sint (usedBytes v) = (uint (Blocks statfs) - uint (Bfree statfs)) * sint (Bsize statfs))"
proof -
  let ?v = "\<lparr> availableBytes = Bavail statfs * Bsize statfs,
                 totalBytes = Blocks statfs * Bsize statfs,
                 usedBytes = (Blocks statfs - Bfree statfs) * Bsize statfs,
                 availableInodes = Ffree statfs,
                 totalInodes = Files statfs,
                 usedInodes = Files statfs - Ffree statfs \<rparr>"
  have run: "getFilesystemStatistics sys volumePath s0 = (Inr ?v, s1)"
    using assms by (simp add: getFilesystemStatistics_def)
  have used: "sint (usedBytes ?v) =
      signed_take_bit 63 ((uint (Blocks statfs) - uint (Bfree statfs)) * sint (Bsize statfs))"
    by (rule int64_of_int) simp
  have avail: "sint (availableBytes ?v) =
      signed_take_bit 63 (uint (Bavail statfs) * sint (Bsize statfs))"
    by (rule int64_of_int) simp
  have total: "sint (totalBytes ?v) = signed_take_bit 63 (uint (Blocks statfs) * sint (Bsize statfs))"
    by (rule int64_of_int) simp
  have inodes: "sint (usedInodes ?v) = signed_take_bit 63 (uint (Files statfs) - uint (Ffree statfs))"
    by (rule int64_of_int) simp
  have differ: "usedBytes ?v = totalBytes ?v - availableBytes ?v \<longleftrightarrow>
         (Bavail statfs - Bfree statfs) * Bsize statfs = 0"
    by (auto simp: algebra_simps)
  have exact: "sint (usedBytes ?v) = (uint (Blocks statfs) - uint (Bfree statfs)) * sint (Bsize statfs)"
    if size: "0 \<le> sint (Bsize statfs)" and free: "uint (Bfree statfs) \<le> uint (Blocks statfs)"
      and fits: "uint (Blocks statfs) * sint (Bsize statfs) < 2 ^ 63"
  proof -
    let ?k = "(uint (Blocks statfs) - uint (Bfree statfs)) * sint (Bsize statfs)"
    have lo: "0 \<le> ?k" using size free by simp
    have "?k \<le> uint (Blocks statfs) * sint (Bsize statfs)"
      using size by (intro mult_right_mono) simp_all
    then have hi: "?k < 2 ^ 63" using fits by linarith
    have "signed_take_bit 63 ?k = ?k"
      by (rule signed_take_bit_int_eq_self) (use lo hi in simp_all)
    then show ?thesis using used by simp
  qed
  show ?thesis
    using run used avail total inodes differ exact by blast
qed

text \<open>
  A file system of 1000 blocks of 4096 bytes, 400 free, 350 of them available.
\<close>

theorem getFilesystemStatistics_arithmetic_witness:
  "unix_Statfs (stubOs None None (Inl (Errno ENOENT)) (Inr exampleStatfs)) ''/data'' []
     = (Inr exampleStatfs, []) \<and>
   (\<exists>v. getFilesystemStatistics (stubOs None None (Inl (Errno ENOENT)) (Inr exampleStatfs))
           ''/data'' [] = (Inr v, []) \<and>
        sint (usedBytes v) = 2457600 \<and> sint (totalBytes v) = 4096000 \<and>
        sint (availableBytes v) = 1433600 \<and> sint (usedInodes v) = 536 \<and>
        usedBytes v \<noteq> totalBytes v - availableBytes v)"
proof -
  have h: "unix_Statfs (stubOs None None (Inl (Errno ENOENT)) (Inr exampleStatfs)) ''/data'' []
     = (Inr exampleStatfs, [])"
    by (simp add: stubOs_def)
  show ?thesis
    using h getFilesystemStatistics_arithmetic [OF h]
    by (auto simp: exampleStatfs_def)
qed

end
